theory Spec2Isabelle
  imports Main "HOL-Library.Word" "HOL-Library.Sublist"
begin

section \<open>JavaScript values\<close>

text \<open>
  A JavaScript string is a sequence of 16-bit code units. The literals of
  \<^verbatim>\<open>probot-app/index.js\<close> are ASCII, so they are written as HOL strings and
  embedded with \<open>str\<close>.
\<close>

type_synonym jsstring = "16 word list"

definition str :: "string \<Rightarrow> jsstring" where
  "str s = map of_char s"

text \<open>
  \<^verbatim>\<open>String.prototype.trim\<close> strips WhiteSpace and LineTerminator code points from
  both ends: TAB, LF, VT, FF, CR, SP, NBSP, U+1680, U+2000..U+200A, U+2028, U+2029,
  U+202F, U+205F, U+3000 and U+FEFF.
\<close>

definition is_js_whitespace :: "16 word \<Rightarrow> bool" where
  "is_js_whitespace c \<longleftrightarrow>
     c = 0x09 \<or> c = 0x0A \<or> c = 0x0B \<or> c = 0x0C \<or> c = 0x0D \<or> c = 0x20 \<or> c = 0xA0
     \<or> c = 0x1680 \<or> (0x2000 \<le> c \<and> c \<le> 0x200A) \<or> c = 0x2028 \<or> c = 0x2029
     \<or> c = 0x202F \<or> c = 0x205F \<or> c = 0x3000 \<or> c = 0xFEFF"

definition js_trim :: "jsstring \<Rightarrow> jsstring" where
  "js_trim s = rev (dropWhile is_js_whitespace (rev (dropWhile is_js_whitespace s)))"

text \<open>\<^verbatim>\<open>s.endsWith(search)\<close>: the last \<open>length search\<close> code units of \<open>s\<close> are \<open>search\<close>.\<close>

definition endsWith :: "jsstring \<Rightarrow> jsstring \<Rightarrow> bool" where
  "endsWith s search \<longleftrightarrow>
     length search \<le> length s \<and> drop (length s - length search) s = search"

text \<open>
  The body of the backend's HTTP response, as axios hands it over in \<^verbatim>\<open>res.data\<close>:
  any JSON value, or \<^verbatim>\<open>undefined\<close>. The keys of an object are distinct. A number
  is kept as an integer; the code only ever looks at whether a value is truthy and
  whether it is a string.
\<close>

datatype jsval =
    Undefined
  | Null
  | Bool bool
  | Num int
  | Str jsstring
  | Arr "jsval list"
  | Obj "(jsstring \<times> jsval) list"

fun truthy :: "jsval \<Rightarrow> bool" where
  "truthy Undefined = False"
| "truthy Null = False"
| "truthy (Bool b) = b"
| "truthy (Num n) = (n \<noteq> 0)"
| "truthy (Str s) = (s \<noteq> [])"
| "truthy (Arr xs) = True"
| "truthy (Obj kvs) = True"

text \<open>What the code can throw or have thrown at it.\<close>

datatype js_error =
    TypeError
  | RequestError int
  | NetworkError

text \<open>
  Reading the property \<^verbatim>\<open>name\<close> of a value: a \<^verbatim>\<open>TypeError\<close> on
  \<^verbatim>\<open>undefined\<close> and \<^verbatim>\<open>null\<close>, the stored value on an object that has the key,
  \<^verbatim>\<open>undefined\<close> otherwise (no prototype of a JSON value has a property
  \<^verbatim>\<open>comment\<close>).
\<close>

fun get_prop :: "jsval \<Rightarrow> jsstring \<Rightarrow> js_error + jsval" where
  "get_prop Undefined name = Inl TypeError"
| "get_prop Null name = Inl TypeError"
| "get_prop (Obj kvs) name = (case map_of kvs name of None \<Rightarrow> Inr Undefined | Some v \<Rightarrow> Inr v)"
| "get_prop v name = Inr Undefined"

section \<open>Webhook payloads\<close>

text \<open>
  \<^verbatim>\<open>context.payload\<close>. A field is optional where the code guards its use
  (\<^verbatim>\<open>!sender\<close>, \<^verbatim>\<open>sender.login &&\<close>, \<^verbatim>\<open>review.body || ""\<close>,
  \<^verbatim>\<open>review.user &&\<close>), where the code only copies it into the payload for the
  backend, or where only one of the two events carries it (\<^verbatim>\<open>review\<close>,
  \<^verbatim>\<open>comment\<close>: reading a property of a missing one is a \<^verbatim>\<open>TypeError\<close>). The pull
  request and the repository, with the fields the code reads from them, are in every
  event.
\<close>

record sender =
  sender_login :: "jsstring option"
  sender_type :: "jsstring option"

record user =
  user_login :: "jsstring option"

record review =
  review_body :: "jsstring option"
  review_state :: "jsstring option"
  review_user :: "user option"

record review_comment =
  comment_body :: "jsstring option"
  comment_path :: "jsstring option"
  comment_diff_hunk :: "jsstring option"
  comment_position :: "int option"
  comment_id :: int
  comment_user :: "user option"

record commit_ref =
  sha :: jsstring

record pull_request =
  pr_number :: int
  pr_title :: "jsstring option"
  pr_body :: "jsstring option"
  pr_user :: "user option"
  pr_base :: commit_ref
  pr_head :: commit_ref

record repo_owner =
  owner_login :: jsstring

record repository =
  repo_owner :: repo_owner
  repo_name :: jsstring
  repo_full_name :: "jsstring option"

record payload =
  payload_sender :: "sender option"
  payload_review :: "review option"
  payload_comment :: "review_comment option"
  payload_pull_request :: pull_request
  payload_repository :: repository

section \<open>GitHub data and the backend payload\<close>

text \<open>One entry of a \<^verbatim>\<open>pulls.listFiles\<close> page, as GitHub returns it.\<close>

record raw_file =
  rf_filename :: jsstring
  rf_previous_filename :: "jsstring option"
  rf_status :: jsstring
  rf_additions :: int
  rf_deletions :: int
  rf_changes :: int
  rf_patch :: "jsstring option"

text \<open>The object \<open>getPrFiles\<close> pushes for each entry.\<close>

record changed_file =
  cf_filename :: jsstring
  cf_status :: jsstring
  cf_additions :: int
  cf_deletions :: int
  cf_changes :: int
  cf_patch :: "jsstring option"
  cf_base_content :: "jsstring option"
  cf_head_content :: "jsstring option"

text \<open>
  \<^verbatim>\<open>res.data\<close> of \<^verbatim>\<open>repos.getContent\<close>: an array for a directory, one object
  otherwise, whose \<^verbatim>\<open>content\<close> and \<^verbatim>\<open>encoding\<close> may be missing.
\<close>

record file_entry =
  fe_content :: "jsstring option"
  fe_encoding :: "jsstring option"

datatype content_data =
    DirListing "file_entry list"
  | SingleEntry file_entry

record backend_payload =
  bp_kind :: jsstring
  bp_review_body :: "jsstring option"
  bp_review_state :: "jsstring option"
  bp_comment_body :: "jsstring option"
  bp_comment_path :: "jsstring option"
  bp_comment_diff_hunk :: "jsstring option"
  bp_comment_position :: "int option"
  bp_comment_id :: "int option"
  bp_reviewer_login :: "jsstring option"
  bp_pr_number :: int
  bp_pr_title :: "jsstring option"
  bp_pr_body :: "jsstring option"
  bp_pr_author_login :: "jsstring option"
  bp_repo_full_name :: "jsstring option"
  bp_repo_owner :: jsstring
  bp_repo_name :: jsstring
  bp_files :: "changed_file list"

section \<open>Effects\<close>

text \<open>
  Everything the code does to the outside is recorded, in order, in a trace: each log
  line and each request. \<open>LogCall\<close> is \<^verbatim>\<open>context.log(...)\<close>, \<open>LogInfo\<close> is
  \<^verbatim>\<open>context.log.info(...)\<close>, \<open>LogError\<close> is \<^verbatim>\<open>context.log.error(...)\<close>.
  A log line carries its message and the objects logged with it. Writing a log line
  does not fail: the logger of the hosting framework is taken not to throw.
\<close>

datatype log_level = LogCall | LogInfo | LogError

datatype log_field =
    FieldErr js_error
  | FieldPath jsstring
  | FieldRef jsstring
  | FieldPayload backend_payload

datatype event =
    Log log_level "log_field list" string
  | GetContent jsstring jsstring jsstring jsstring
  | ListFiles jsstring jsstring int nat nat
  | AxiosPost jsstring backend_payload
  | CreateComment jsstring jsstring int jsstring
  | CreateReply jsstring jsstring int int jsstring

text \<open>
  The outside world answers each request; the answer may depend on everything that
  happened before (the trace so far), so the same request can be answered differently
  at different times. A rejected promise is \<open>Inl\<close>. \<open>buffer_decode content encoding\<close>
  is \<^verbatim>\<open>Buffer.from(content, encoding).toString("utf8")\<close> of the Node library,
  which throws on an encoding it does not know.
\<close>

record world =
  env_BACKEND_URL :: "jsstring option"
  repos_getContent ::
    "event list \<Rightarrow> jsstring \<Rightarrow> jsstring \<Rightarrow> jsstring \<Rightarrow> jsstring \<Rightarrow> js_error + content_data"
  pulls_listFiles ::
    "event list \<Rightarrow> jsstring \<Rightarrow> jsstring \<Rightarrow> int \<Rightarrow> nat \<Rightarrow> nat \<Rightarrow> js_error + raw_file list"
  axios_post :: "event list \<Rightarrow> jsstring \<Rightarrow> backend_payload \<Rightarrow> js_error + jsval"
  issues_createComment ::
    "event list \<Rightarrow> jsstring \<Rightarrow> jsstring \<Rightarrow> int \<Rightarrow> jsstring \<Rightarrow> js_error + unit"
  pulls_createReplyForReviewComment ::
    "event list \<Rightarrow> jsstring \<Rightarrow> jsstring \<Rightarrow> int \<Rightarrow> int \<Rightarrow> jsstring \<Rightarrow> js_error + unit"
  buffer_decode :: "jsstring \<Rightarrow> jsstring \<Rightarrow> js_error + jsstring"

text \<open>
  An asynchronous function takes the trace and returns the extended trace with either
  the error it threw or its value.
\<close>

type_synonym 'a outcome = "event list \<times> (js_error + 'a)"

section \<open>callBackend\<close>

text \<open>The body of the \<^verbatim>\<open>try\<close> block of \<open>callBackend\<close>.\<close>

definition callBackend_try ::
  "world \<Rightarrow> jsstring \<Rightarrow> backend_payload \<Rightarrow> event list \<Rightarrow> (jsstring option) outcome" where
  "callBackend_try w backendUrl payloadForBackend tr =
     (let tr1 = tr @ [AxiosPost backendUrl payloadForBackend] in
      case axios_post w tr backendUrl payloadForBackend of
        Inl err \<Rightarrow> (tr1, Inl err)
      | Inr data \<Rightarrow>
          (case get_prop data (str ''comment'') of
             Inl err \<Rightarrow> (tr1, Inl err)
           | Inr commentBody \<Rightarrow>
               if \<not> truthy commentBody
               then (tr1 @ [Log LogCall [] ''Backend returned empty comment, skipping.''], Inr None)
               else
                 (case commentBody of
                    Str s \<Rightarrow>
                      if js_trim s = []
                      then (tr1 @ [Log LogCall [] ''Backend returned empty comment, skipping.''],
                            Inr None)
                      else (tr1, Inr (Some s))
                  | _ \<Rightarrow> (tr1, Inl TypeError))))"

definition callBackend :: "world \<Rightarrow> backend_payload \<Rightarrow> event list \<Rightarrow> (jsstring option) outcome" where
  "callBackend w payloadForBackend tr =
     (case env_BACKEND_URL w of
        None \<Rightarrow>
          (tr @ [Log LogError [] ''BACKEND_URL is not set in environment variables''], Inr None)
      | Some backendUrl \<Rightarrow>
          if backendUrl = []
          then (tr @ [Log LogError [] ''BACKEND_URL is not set in environment variables''],
                Inr None)
          else
            (let tr0 = tr @ [Log LogInfo [FieldPayload payloadForBackend]
                               ''Sending payload to backend'']
             in case callBackend_try w backendUrl payloadForBackend tr0 of
                  (tr1, Inl err) \<Rightarrow>
                    (tr1 @ [Log LogError [FieldErr err] ''Error calling backend''], Inr None)
                | (tr1, Inr r) \<Rightarrow> (tr1, Inr r)))"

section \<open>getFileContent\<close>

text \<open>The body of the \<^verbatim>\<open>try\<close> block of \<open>getFileContent\<close>.\<close>

definition getFileContent_try ::
  "world \<Rightarrow> jsstring \<Rightarrow> jsstring \<Rightarrow> jsstring \<Rightarrow> jsstring \<Rightarrow> event list \<Rightarrow> (jsstring option) outcome"
  where
  "getFileContent_try w owner repo path ref tr =
     (let tr1 = tr @ [GetContent owner repo path ref] in
      case repos_getContent w tr owner repo path ref of
        Inl err \<Rightarrow> (tr1, Inl err)
      | Inr (DirListing entries) \<Rightarrow> (tr1, Inr None)
      | Inr (SingleEntry data) \<Rightarrow>
          (case fe_content data of
             None \<Rightarrow> (tr1, Inr None)
           | Some content \<Rightarrow>
               if content = [] then (tr1, Inr None)
               else
                 (let encoding =
                        (case fe_encoding data of
                           None \<Rightarrow> str ''base64''
                         | Some e \<Rightarrow> if e = [] then str ''base64'' else e)
                  in case buffer_decode w content encoding of
                       Inl err \<Rightarrow> (tr1, Inl err)
                     | Inr text \<Rightarrow> (tr1, Inr (Some text)))))"

definition getFileContent ::
  "world \<Rightarrow> jsstring \<Rightarrow> jsstring \<Rightarrow> jsstring \<Rightarrow> jsstring \<Rightarrow> event list \<Rightarrow> (jsstring option) outcome"
  where
  "getFileContent w owner repo path ref tr =
     (case getFileContent_try w owner repo path ref tr of
        (tr1, Inl err) \<Rightarrow>
          (tr1 @ [Log LogError [FieldErr err, FieldPath path, FieldRef ref]
                    ''Failed to fetch file content from GitHub''],
           Inr None)
      | (tr1, Inr r) \<Rightarrow> (tr1, Inr r))"

section \<open>The bot filter\<close>

definition isFromBot :: "payload \<Rightarrow> bool" where
  "isFromBot ctx =
     (case payload_sender ctx of
        None \<Rightarrow> False
      | Some sender \<Rightarrow>
          if sender_type sender = Some (str ''Bot'') then True
          else if (case sender_login sender of
                     None \<Rightarrow> False
                   | Some login \<Rightarrow> login \<noteq> [] \<and> endsWith login (str ''[bot]''))
          then True
          else False)"

section \<open>getPrFiles\<close>

text \<open>The body of the \<^verbatim>\<open>for\<close> loop: one changed file, with its contents.\<close>

definition collect_file ::
  "world \<Rightarrow> jsstring \<Rightarrow> jsstring \<Rightarrow> jsstring \<Rightarrow> jsstring \<Rightarrow> raw_file \<Rightarrow> event list \<Rightarrow>
   changed_file outcome" where
  "collect_file w owner repo baseSha headSha f tr =
     (let filename = rf_filename f in
      case (if rf_status f = str ''added'' then (tr, Inr None)
            else getFileContent w owner repo filename baseSha tr) of
        (tr1, Inl err) \<Rightarrow> (tr1, Inl err)
      | (tr1, Inr baseContent) \<Rightarrow>
          (case (if rf_status f = str ''removed'' then (tr1, Inr None)
                 else getFileContent w owner repo filename headSha tr1) of
             (tr2, Inl err) \<Rightarrow> (tr2, Inl err)
           | (tr2, Inr headContent) \<Rightarrow>
               (tr2, Inr \<lparr>cf_filename = filename,
                          cf_status = rf_status f,
                          cf_additions = rf_additions f,
                          cf_deletions = rf_deletions f,
                          cf_changes = rf_changes f,
                          cf_patch = (case rf_patch f of
                                        None \<Rightarrow> None
                                      | Some p \<Rightarrow> if p = [] then None else Some p),
                          cf_base_content = baseContent,
                          cf_head_content = headContent\<rparr>)))"

text \<open>The \<^verbatim>\<open>for (const f of res.data)\<close> loop over one page, pushing onto \<open>files\<close>.\<close>

fun collect_page ::
  "world \<Rightarrow> jsstring \<Rightarrow> jsstring \<Rightarrow> jsstring \<Rightarrow> jsstring \<Rightarrow> raw_file list \<Rightarrow>
   changed_file list \<Rightarrow> event list \<Rightarrow> (changed_file list) outcome" where
  "collect_page w owner repo baseSha headSha [] files tr = (tr, Inr files)"
| "collect_page w owner repo baseSha headSha (f # fs) files tr =
     (case collect_file w owner repo baseSha headSha f tr of
        (tr1, Inl err) \<Rightarrow> (tr1, Inl err)
      | (tr1, Inr entry) \<Rightarrow> collect_page w owner repo baseSha headSha fs (files @ [entry]) tr1)"

text \<open>
  The \<^verbatim>\<open>while (true)\<close> loop, from the state (\<open>page\<close>, \<open>files\<close>). Nothing in the code
  bounds it: it runs for as long as GitHub returns pages of 100 or more entries, so the
  result is an option and \<open>None\<close> is the run that never ends.
\<close>

partial_function (option) getPrFiles_loop ::
  "world \<Rightarrow> jsstring \<Rightarrow> jsstring \<Rightarrow> int \<Rightarrow> jsstring \<Rightarrow> jsstring \<Rightarrow> nat \<Rightarrow>
   changed_file list \<Rightarrow> event list \<Rightarrow> ((changed_file list) outcome) option" where
  "getPrFiles_loop w owner repo prNumber baseSha headSha page files tr =
     (case pulls_listFiles w tr owner repo prNumber 100 page of
        Inl err \<Rightarrow> Some (tr @ [ListFiles owner repo prNumber 100 page], Inl err)
      | Inr data \<Rightarrow>
          if length data = 0
          then Some (tr @ [ListFiles owner repo prNumber 100 page], Inr files)
          else
            (case collect_page w owner repo baseSha headSha data files
                    (tr @ [ListFiles owner repo prNumber 100 page]) of
               (tr1, Inl err) \<Rightarrow> Some (tr1, Inl err)
             | (tr1, Inr files1) \<Rightarrow>
                 if length data < 100 then Some (tr1, Inr files1)
                 else getPrFiles_loop w owner repo prNumber baseSha headSha (page + 1) files1 tr1))"

definition getPrFiles ::
  "world \<Rightarrow> jsstring \<Rightarrow> jsstring \<Rightarrow> int \<Rightarrow> jsstring \<Rightarrow> jsstring \<Rightarrow> event list \<Rightarrow>
   ((changed_file list) outcome) option" where
  "getPrFiles w owner repo prNumber baseSha headSha tr =
     getPrFiles_loop w owner repo prNumber baseSha headSha 1 [] tr"

section \<open>The event handlers\<close>

text \<open>\<^verbatim>\<open>x && x.login\<close> for a user that may be missing.\<close>

definition login_of :: "user option \<Rightarrow> jsstring option" where
  "login_of u = (case u of None \<Rightarrow> None | Some x \<Rightarrow> user_login x)"

text \<open>\<^verbatim>\<open>body || ""\<close>.\<close>

definition or_empty :: "jsstring option \<Rightarrow> jsstring" where
  "or_empty b = (case b of None \<Rightarrow> [] | Some s \<Rightarrow> s)"

text \<open>The object literal \<^verbatim>\<open>payloadForBackend\<close> of the review handler.\<close>

definition review_payload :: "payload \<Rightarrow> review \<Rightarrow> changed_file list \<Rightarrow> backend_payload" where
  "review_payload ctx review files =
     \<lparr>bp_kind = str ''review'',
      bp_review_body = Some (or_empty (review_body review)),
      bp_review_state = review_state review,
      bp_comment_body = None,
      bp_comment_path = None,
      bp_comment_diff_hunk = None,
      bp_comment_position = None,
      bp_comment_id = None,
      bp_reviewer_login = login_of (review_user review),
      bp_pr_number = pr_number (payload_pull_request ctx),
      bp_pr_title = pr_title (payload_pull_request ctx),
      bp_pr_body = pr_body (payload_pull_request ctx),
      bp_pr_author_login = login_of (pr_user (payload_pull_request ctx)),
      bp_repo_full_name = repo_full_name (payload_repository ctx),
      bp_repo_owner = owner_login (repo_owner (payload_repository ctx)),
      bp_repo_name = repo_name (payload_repository ctx),
      bp_files = files\<rparr>"

text \<open>The object literal \<^verbatim>\<open>payloadForBackend\<close> of the inline comment handler.\<close>

definition comment_payload ::
  "payload \<Rightarrow> review_comment \<Rightarrow> changed_file list \<Rightarrow> backend_payload" where
  "comment_payload ctx comment files =
     \<lparr>bp_kind = str ''review_comment'',
      bp_review_body = None,
      bp_review_state = None,
      bp_comment_body = Some (or_empty (comment_body comment)),
      bp_comment_path = comment_path comment,
      bp_comment_diff_hunk = comment_diff_hunk comment,
      bp_comment_position = comment_position comment,
      bp_comment_id = Some (comment_id comment),
      bp_reviewer_login = login_of (comment_user comment),
      bp_pr_number = pr_number (payload_pull_request ctx),
      bp_pr_title = pr_title (payload_pull_request ctx),
      bp_pr_body = pr_body (payload_pull_request ctx),
      bp_pr_author_login = login_of (pr_user (payload_pull_request ctx)),
      bp_repo_full_name = repo_full_name (payload_repository ctx),
      bp_repo_owner = owner_login (repo_owner (payload_repository ctx)),
      bp_repo_name = repo_name (payload_repository ctx),
      bp_files = files\<rparr>"

text \<open>The \<^verbatim>\<open>try\<close> block of the \<^verbatim>\<open>pull_request_review.submitted\<close> handler.\<close>

definition review_submitted_try :: "world \<Rightarrow> payload \<Rightarrow> event list \<Rightarrow> (unit outcome) option" where
  "review_submitted_try w ctx tr =
     (if isFromBot ctx
      then Some (tr @ [Log LogCall [] ''Skipping pull_request_review from bot sender.''], Inr ())
      else
        (case payload_review ctx of
           None \<Rightarrow> Some (tr, Inl TypeError)
         | Some review \<Rightarrow>
             (let pr = payload_pull_request ctx;
                  repo = payload_repository ctx;
                  reviewBody = or_empty (review_body review)
              in if js_trim reviewBody = []
                 then Some (tr @ [Log LogCall [] ''Review body empty, skipping.''], Inr ())
                 else
                   (let owner = owner_login (repo_owner repo);
                        repoName = repo_name repo;
                        prNumber = pr_number pr;
                        baseSha = sha (pr_base pr);
                        headSha = sha (pr_head pr)
                    in case getPrFiles w owner repoName prNumber baseSha headSha tr of
                         None \<Rightarrow> None
                       | Some (tr1, Inl err) \<Rightarrow> Some (tr1, Inl err)
                       | Some (tr1, Inr files) \<Rightarrow>
                           (let payloadForBackend = review_payload ctx review files
                            in case callBackend w payloadForBackend tr1 of
                                 (tr2, Inl err) \<Rightarrow> Some (tr2, Inl err)
                               | (tr2, Inr commentBody) \<Rightarrow>
                                   (case commentBody of
                                      None \<Rightarrow> Some (tr2, Inr ())
                                    | Some body \<Rightarrow>
                                        if body = [] then Some (tr2, Inr ())
                                        else
                                          (case issues_createComment w tr2 owner repoName
                                                  prNumber body of
                                             Inl err \<Rightarrow>
                                               Some (tr2 @ [CreateComment owner repoName
                                                              prNumber body], Inl err)
                                           | Inr u \<Rightarrow>
                                               Some (tr2 @ [CreateComment owner repoName
                                                              prNumber body], Inr ()))))))))"

text \<open>The handler: the \<^verbatim>\<open>try\<close> block under its \<^verbatim>\<open>catch\<close>.\<close>

definition review_submitted :: "world \<Rightarrow> payload \<Rightarrow> event list \<Rightarrow> (unit outcome) option" where
  "review_submitted w ctx tr =
     (case review_submitted_try w ctx tr of
        None \<Rightarrow> None
      | Some (tr1, Inl err) \<Rightarrow>
          Some (tr1 @ [Log LogError [FieldErr err]
                         ''Error while handling pull_request_review.submitted''], Inr ())
      | Some (tr1, Inr u) \<Rightarrow> Some (tr1, Inr u))"

text \<open>The \<^verbatim>\<open>try\<close> block of the \<^verbatim>\<open>pull_request_review_comment.created\<close> handler.\<close>

definition review_comment_created_try ::
  "world \<Rightarrow> payload \<Rightarrow> event list \<Rightarrow> (unit outcome) option" where
  "review_comment_created_try w ctx tr =
     (if isFromBot ctx
      then Some (tr @ [Log LogCall [] ''Skipping pull_request_review_comment from bot sender.''],
                 Inr ())
      else
        (case payload_comment ctx of
           None \<Rightarrow> Some (tr, Inl TypeError)
         | Some comment \<Rightarrow>
             (let pr = payload_pull_request ctx;
                  repo = payload_repository ctx;
                  commentBodyOriginal = or_empty (comment_body comment)
              in if js_trim commentBodyOriginal = []
                 then Some (tr @ [Log LogCall [] ''Inline comment body empty, skipping.''], Inr ())
                 else
                   (let owner = owner_login (repo_owner repo);
                        repoName = repo_name repo;
                        prNumber = pr_number pr;
                        baseSha = sha (pr_base pr);
                        headSha = sha (pr_head pr)
                    in case getPrFiles w owner repoName prNumber baseSha headSha tr of
                         None \<Rightarrow> None
                       | Some (tr1, Inl err) \<Rightarrow> Some (tr1, Inl err)
                       | Some (tr1, Inr files) \<Rightarrow>
                           (let payloadForBackend = comment_payload ctx comment files
                            in case callBackend w payloadForBackend tr1 of
                                 (tr2, Inl err) \<Rightarrow> Some (tr2, Inl err)
                               | (tr2, Inr replyBody) \<Rightarrow>
                                   (case replyBody of
                                      None \<Rightarrow> Some (tr2, Inr ())
                                    | Some body \<Rightarrow>
                                        if body = [] then Some (tr2, Inr ())
                                        else
                                          (case pulls_createReplyForReviewComment w tr2 owner
                                                  repoName prNumber (comment_id comment) body of
                                             Inl err \<Rightarrow>
                                               Some (tr2 @ [CreateReply owner repoName prNumber
                                                              (comment_id comment) body], Inl err)
                                           | Inr u \<Rightarrow>
                                               Some (tr2 @ [CreateReply owner repoName prNumber
                                                              (comment_id comment) body,
                                                            Log LogInfo []
                                                              ''Replied to inline review comment.''],
                                                     Inr ()))))))))"

definition review_comment_created ::
  "world \<Rightarrow> payload \<Rightarrow> event list \<Rightarrow> (unit outcome) option" where
  "review_comment_created w ctx tr =
     (case review_comment_created_try w ctx tr of
        None \<Rightarrow> None
      | Some (tr1, Inl err) \<Rightarrow>
          Some (tr1 @ [Log LogError [FieldErr err]
                         ''Error while handling pull_request_review_comment.created''], Inr ())
      | Some (tr1, Inr u) \<Rightarrow> Some (tr1, Inr u))"

text \<open>The call \<^verbatim>\<open>getPrFiles(context, owner, repoName, prNumber, baseSha, headSha)\<close> of both handlers.\<close>

abbreviation getPrFiles_of :: "world \<Rightarrow> payload \<Rightarrow> event list \<Rightarrow> ((changed_file list) outcome) option"
  where
  "getPrFiles_of w ctx tr \<equiv>
     getPrFiles w (owner_login (repo_owner (payload_repository ctx)))
       (repo_name (payload_repository ctx)) (pr_number (payload_pull_request ctx))
       (sha (pr_base (payload_pull_request ctx))) (sha (pr_head (payload_pull_request ctx))) tr"

section \<open>Reading traces and describing the outside world\<close>

fun is_ListFiles :: "event \<Rightarrow> bool" where
  "is_ListFiles (ListFiles owner repo n per_page page) = True"
| "is_ListFiles e = False"

fun is_GetContent :: "event \<Rightarrow> bool" where
  "is_GetContent (GetContent owner repo path ref) = True"
| "is_GetContent e = False"

fun is_Log :: "event \<Rightarrow> bool" where
  "is_Log (Log level details msg) = True"
| "is_Log e = False"

text \<open>The requests that write to GitHub: a new comment or a reply.\<close>

fun is_write :: "event \<Rightarrow> bool" where
  "is_write (CreateComment owner repo n body) = True"
| "is_write (CreateReply owner repo n cid body) = True"
| "is_write e = False"

text \<open>What the content fetcher may add to a trace: content requests and log lines.\<close>

definition is_content_event :: "event \<Rightarrow> bool" where
  "is_content_event e \<longleftrightarrow> is_GetContent e \<or> is_Log e"

text \<open>The metadata of a listing entry, as it stands in the assembled entry.\<close>

definition entry_matches :: "raw_file \<Rightarrow> changed_file \<Rightarrow> bool" where
  "entry_matches f entry \<longleftrightarrow>
     cf_filename entry = rf_filename f \<and>
     cf_status entry = rf_status f \<and>
     cf_additions entry = rf_additions f \<and>
     cf_deletions entry = rf_deletions f \<and>
     cf_changes entry = rf_changes f \<and>
     cf_patch entry = (case rf_patch f of None \<Rightarrow> None | Some p \<Rightarrow> if p = [] then None else Some p)"

text \<open>What an assembled entry must satisfy: no base content when added, no head content when removed.\<close>

definition status_invariant :: "changed_file \<Rightarrow> bool" where
  "status_invariant entry \<longleftrightarrow>
     (cf_status entry = str ''added'' \<longrightarrow> cf_base_content entry = None) \<and>
     (cf_status entry = str ''removed'' \<longrightarrow> cf_head_content entry = None)"

text \<open>
  GitHub serving the listing \<open>xs\<close> page by page: page \<open>p\<close> of size \<open>n\<close> holds the
  entries from position \<open>(p - 1) * n\<close> on, at most \<open>n\<close> of them.
\<close>

definition page_of :: "raw_file list \<Rightarrow> nat \<Rightarrow> nat \<Rightarrow> raw_file list" where
  "page_of xs per_page page = take per_page (drop ((page - 1) * per_page) xs)"

definition paged_listing :: "world \<Rightarrow> raw_file list \<Rightarrow> bool" where
  "paged_listing w xs \<longleftrightarrow>
     (\<forall>tr owner repo n per_page page.
        pulls_listFiles w tr owner repo n per_page page = Inr (page_of xs per_page page))"

text \<open>
  The listing ends by page \<open>k\<close>: from page \<open>k\<close> on, a request for a page of 100 fails or
  returns fewer than 100 entries, whatever happened before.
\<close>

definition short_page :: "js_error + raw_file list \<Rightarrow> bool" where
  "short_page res = (case res of Inl err \<Rightarrow> True | Inr data \<Rightarrow> length data < 100)"

definition listing_ends :: "world \<Rightarrow> nat \<Rightarrow> bool" where
  "listing_ends w k \<longleftrightarrow>
     (\<forall>tr owner repo n page. k \<le> page \<longrightarrow> short_page (pulls_listFiles w tr owner repo n 100 page))"

text \<open>
  A world whose answers do not depend on the past, for examples: the environment
  variable, the content of each path at each ref, the listing pages, the backend's
  answer, and the answer to a posted comment. Its decoder returns the content as it is.
\<close>

definition static_world ::
  "jsstring option \<Rightarrow> (jsstring \<Rightarrow> jsstring \<Rightarrow> js_error + content_data) \<Rightarrow>
   (nat \<Rightarrow> nat \<Rightarrow> js_error + raw_file list) \<Rightarrow> (js_error + jsval) \<Rightarrow> (js_error + unit) \<Rightarrow> world"
  where
  "static_world url content pages response posted =
     \<lparr>env_BACKEND_URL = url,
      repos_getContent = (\<lambda>tr owner repo path ref. content path ref),
      pulls_listFiles = (\<lambda>tr owner repo n per_page page. pages per_page page),
      axios_post = (\<lambda>tr backendUrl p. response),
      issues_createComment = (\<lambda>tr owner repo n body. posted),
      pulls_createReplyForReviewComment = (\<lambda>tr owner repo n cid body. posted),
      buffer_decode = (\<lambda>content encoding. Inr content)\<rparr>"

definition file_named :: "string \<Rightarrow> string \<Rightarrow> raw_file" where
  "file_named name status =
     \<lparr>rf_filename = str name, rf_previous_filename = None, rf_status = str status,
      rf_additions = 1, rf_deletions = 0, rf_changes = 1, rf_patch = None\<rparr>"

definition text_file :: "string \<Rightarrow> js_error + content_data" where
  "text_file content = Inr (SingleEntry \<lparr>fe_content = Some (str content), fe_encoding = None\<rparr>)"

text \<open>Example events: a pull request of \<^verbatim>\<open>octo/repo\<close>, reviewed or commented on.\<close>

definition example_pull_request :: pull_request where
  "example_pull_request =
     \<lparr>pr_number = 7, pr_title = Some (str ''Fix''), pr_body = None,
      pr_user = Some \<lparr>user_login = Some (str ''bob'')\<rparr>,
      pr_base = \<lparr>sha = str ''b0''\<rparr>, pr_head = \<lparr>sha = str ''h1''\<rparr>\<rparr>"

definition example_repository :: repository where
  "example_repository =
     \<lparr>repo_owner = \<lparr>owner_login = str ''octo''\<rparr>, repo_name = str ''repo'',
      repo_full_name = Some (str ''octo/repo'')\<rparr>"

definition review_event :: "sender option \<Rightarrow> jsstring option \<Rightarrow> payload" where
  "review_event who body =
     \<lparr>payload_sender = who,
      payload_review =
        Some \<lparr>review_body = body, review_state = Some (str ''approved''),
              review_user = Some \<lparr>user_login = Some (str ''alice'')\<rparr>\<rparr>,
      payload_comment = None,
      payload_pull_request = example_pull_request,
      payload_repository = example_repository\<rparr>"

definition comment_event :: "sender option \<Rightarrow> jsstring option \<Rightarrow> payload" where
  "comment_event who body =
     \<lparr>payload_sender = who,
      payload_review = None,
      payload_comment =
        Some \<lparr>comment_body = body, comment_path = Some (str ''src/a.js''),
              comment_diff_hunk = None, comment_position = Some 5, comment_id = 42,
              comment_user = Some \<lparr>user_login = Some (str ''alice'')\<rparr>\<rparr>,
      payload_pull_request = example_pull_request,
      payload_repository = example_repository\<rparr>"

definition alice :: "sender option" where
  "alice = Some \<lparr>sender_login = Some (str ''alice''), sender_type = Some (str ''User'')\<rparr>"

definition dependabot :: "sender option" where
  "dependabot =
     Some \<lparr>sender_login = Some (str ''dependabot[bot]''), sender_type = Some (str ''Bot'')\<rparr>"

section \<open>Properties of the string helpers\<close>

lemma endsWith_iff_suffix: "endsWith s search \<longleftrightarrow> suffix search s"
proof
  assume "endsWith s search"
  then have "s = take (length s - length search) s @ search"
    by (metis append_take_drop_id endsWith_def)
  then show "suffix search s"
    by (metis suffixI)
next
  assume "suffix search s"
  then obtain p where "s = p @ search"
    by (auto simp: suffix_def)
  then show "endsWith s search"
    by (simp add: endsWith_def)
qed

lemma js_trim_empty_iff: "js_trim s = [] \<longleftrightarrow> (\<forall>c \<in> set s. is_js_whitespace c)"
proof -
  let ?d = "dropWhile is_js_whitespace s"
  have "(\<forall>c \<in> set ?d. is_js_whitespace c) \<longleftrightarrow> ?d = []"
  proof
    assume all: "\<forall>c \<in> set ?d. is_js_whitespace c"
    show "?d = []"
    proof (rule ccontr)
      assume ne: "?d \<noteq> []"
      then have "\<not> is_js_whitespace (hd ?d)" by (rule hd_dropWhile)
      moreover from ne have "hd ?d \<in> set ?d" by simp
      ultimately show False using all by blast
    qed
  qed (auto dest: set_dropWhileD)
  then show ?thesis
    by (simp add: js_trim_def dropWhile_eq_Nil_conv)
qed

lemma isFromBot_iff:
  "isFromBot ctx \<longleftrightarrow>
     (\<exists>s. payload_sender ctx = Some s \<and>
        (sender_type s = Some (str ''Bot'') \<or>
         (\<exists>login prefix. sender_login s = Some login \<and> login = prefix @ str ''[bot]'')))"
proof (cases "payload_sender ctx")
  case None
  then show ?thesis by (simp add: isFromBot_def)
next
  case (Some s)
  have nonempty: "prefix @ str ''[bot]'' \<noteq> []" for prefix
    by (simp add: str_def)
  show ?thesis
  proof (cases "sender_login s")
    case None
    with Some show ?thesis by (simp add: isFromBot_def)
  next
    case (Some login)
    have "login \<noteq> [] \<and> endsWith login (str ''[bot]'') \<longleftrightarrow> (\<exists>prefix. login = prefix @ str ''[bot]'')"
      using nonempty by (auto simp: endsWith_iff_suffix suffix_def)
    with Some \<open>payload_sender ctx = Some s\<close> show ?thesis
      by (simp add: isFromBot_def)
  qed
qed

section \<open>Properties of the bot filter and getFileContent\<close>


lemma getFileContent_shape:
  "\<exists>es r. getFileContent w owner repo path ref tr = (tr @ es, Inr r) \<and> list_all is_content_event es"
  by (auto simp: getFileContent_def getFileContent_try_def Let_def is_content_event_def
      split: sum.splits content_data.splits option.splits)

lemma content_event_not_ListFiles: "is_content_event e \<Longrightarrow> \<not> is_ListFiles e"
  by (cases e) (simp_all add: is_content_event_def)

lemma filter_ListFiles_content: "list_all is_content_event es \<Longrightarrow> filter is_ListFiles es = []"
  by (auto simp: filter_empty_conv list_all_iff content_event_not_ListFiles)

lemma collect_file_shape:
  "\<exists>es entry. collect_file w owner repo baseSha headSha f tr = (tr @ es, Inr entry) \<and>
     list_all is_content_event es \<and> entry_matches f entry \<and>
     (rf_status f = str ''added'' \<longrightarrow> cf_base_content entry = None) \<and>
     (rf_status f = str ''removed'' \<longrightarrow> cf_head_content entry = None)"
proof -
  have "\<exists>es1 r1.
      (if rf_status f = str ''added'' then (tr, Inr None)
       else getFileContent w owner repo (rf_filename f) baseSha tr) = (tr @ es1, Inr r1) \<and>
      list_all is_content_event es1 \<and> (rf_status f = str ''added'' \<longrightarrow> r1 = None)"
    using getFileContent_shape [of w owner repo "rf_filename f" baseSha tr]
    by (cases "rf_status f = str ''added''") auto
  then obtain es1 r1 where base:
    "(if rf_status f = str ''added'' then (tr, Inr None)
      else getFileContent w owner repo (rf_filename f) baseSha tr) = (tr @ es1, Inr r1)"
    "list_all is_content_event es1" "rf_status f = str ''added'' \<longrightarrow> r1 = None"
    by blast
  have "\<exists>es2 r2.
      (if rf_status f = str ''removed'' then (tr @ es1, Inr None)
       else getFileContent w owner repo (rf_filename f) headSha (tr @ es1)) =
        (tr @ es1 @ es2, Inr r2) \<and>
      list_all is_content_event es2 \<and> (rf_status f = str ''removed'' \<longrightarrow> r2 = None)"
    using getFileContent_shape [of w owner repo "rf_filename f" headSha "tr @ es1"]
    by (cases "rf_status f = str ''removed''") auto
  then obtain es2 r2 where head:
    "(if rf_status f = str ''removed'' then (tr @ es1, Inr None)
      else getFileContent w owner repo (rf_filename f) headSha (tr @ es1)) =
        (tr @ es1 @ es2, Inr r2)"
    "list_all is_content_event es2" "rf_status f = str ''removed'' \<longrightarrow> r2 = None"
    by blast
  show ?thesis
    unfolding collect_file_def Let_def base prod.case sum.case head
    using base(2,3) head(2,3) by (simp add: entry_matches_def)
qed

lemma collect_page_shape:
  "\<exists>es new. collect_page w owner repo baseSha headSha data files tr = (tr @ es, Inr (files @ new)) \<and>
     list_all is_content_event es \<and> list_all2 entry_matches data new \<and>
     list_all status_invariant new"
proof (induction data arbitrary: files tr)
  case Nil
  then show ?case by simp
next
  case (Cons f fs)
  obtain es1 entry where one:
    "collect_file w owner repo baseSha headSha f tr = (tr @ es1, Inr entry)"
    "list_all is_content_event es1" "entry_matches f entry"
    "rf_status f = str ''added'' \<longrightarrow> cf_base_content entry = None"
    "rf_status f = str ''removed'' \<longrightarrow> cf_head_content entry = None"
    using collect_file_shape by blast
  obtain es2 new where rest:
    "collect_page w owner repo baseSha headSha fs (files @ [entry]) (tr @ es1) =
       ((tr @ es1) @ es2, Inr ((files @ [entry]) @ new))"
    "list_all is_content_event es2" "list_all2 entry_matches fs new"
    "list_all status_invariant new"
    using Cons.IH by blast
  have status: "cf_status entry = rf_status f"
    using one(3) by (simp add: entry_matches_def)
  have "collect_page w owner repo baseSha headSha (f # fs) files tr =
          (tr @ (es1 @ es2), Inr (files @ (entry # new)))"
    by (simp add: one(1) rest(1))
  moreover have "list_all is_content_event (es1 @ es2)"
    using one(2) rest(2) by simp
  moreover have "list_all2 entry_matches (f # fs) (entry # new)"
    using one(3) rest(3) by simp
  moreover have "list_all status_invariant (entry # new)"
    using one(4,5) rest(4) status by (simp add: status_invariant_def)
  ultimately show ?case by blast
qed

lemma getFileContent_error:
  "repos_getContent w tr owner repo path ref = Inl err \<Longrightarrow>
   getFileContent w owner repo path ref tr =
     (tr @ [GetContent owner repo path ref,
            Log LogError [FieldErr err, FieldPath path, FieldRef ref]
              ''Failed to fetch file content from GitHub''], Inr None)"
  by (simp add: getFileContent_def getFileContent_try_def)

lemma getFileContent_directory:
  "repos_getContent w tr owner repo path ref = Inr (DirListing entries) \<Longrightarrow>
   getFileContent w owner repo path ref tr = (tr @ [GetContent owner repo path ref], Inr None)"
  by (simp add: getFileContent_def getFileContent_try_def)

lemma getFileContent_no_content:
  "repos_getContent w tr owner repo path ref = Inr (SingleEntry data) \<Longrightarrow>
   fe_content data = None \<or> fe_content data = Some [] \<Longrightarrow>
   getFileContent w owner repo path ref tr = (tr @ [GetContent owner repo path ref], Inr None)"
  by (auto simp: getFileContent_def getFileContent_try_def)

lemma getFileContent_decode_error:
  "repos_getContent w tr owner repo path ref = Inr (SingleEntry data) \<Longrightarrow>
   fe_content data = Some content \<Longrightarrow> content \<noteq> [] \<Longrightarrow>
   buffer_decode w content
     (case fe_encoding data of None \<Rightarrow> str ''base64'' | Some e \<Rightarrow> if e = [] then str ''base64'' else e)
     = Inl err \<Longrightarrow>
   getFileContent w owner repo path ref tr =
     (tr @ [GetContent owner repo path ref,
            Log LogError [FieldErr err, FieldPath path, FieldRef ref]
              ''Failed to fetch file content from GitHub''], Inr None)"
  by (simp add: getFileContent_def getFileContent_try_def)

section \<open>Properties of getPrFiles\<close>

lemma getPrFiles_loop_listing_error:
  "pulls_listFiles w tr owner repo prNumber 100 page = Inl err \<Longrightarrow>
   getPrFiles_loop w owner repo prNumber baseSha headSha page files tr =
     Some (tr @ [ListFiles owner repo prNumber 100 page], Inl err)"
  by (subst getPrFiles_loop.simps) simp

lemma getPrFiles_loop_short_page:
  "pulls_listFiles w tr owner repo prNumber 100 page = Inr data \<Longrightarrow> length data < 100 \<Longrightarrow>
   collect_page w owner repo baseSha headSha data files
     (tr @ [ListFiles owner repo prNumber 100 page]) = (tr1, Inr files1) \<Longrightarrow>
   getPrFiles_loop w owner repo prNumber baseSha headSha page files tr = Some (tr1, Inr files1)"
  by (subst getPrFiles_loop.simps) auto

lemma getPrFiles_loop_full_page:
  "pulls_listFiles w tr owner repo prNumber 100 page = Inr data \<Longrightarrow> \<not> length data < 100 \<Longrightarrow>
   collect_page w owner repo baseSha headSha data files
     (tr @ [ListFiles owner repo prNumber 100 page]) = (tr1, Inr files1) \<Longrightarrow>
   getPrFiles_loop w owner repo prNumber baseSha headSha page files tr =
     getPrFiles_loop w owner repo prNumber baseSha headSha (page + 1) files1 tr1"
  by (subst getPrFiles_loop.simps) auto

lemma getPrFiles_loop_terminates:
  assumes "listing_ends w k"
  shows "\<exists>y. getPrFiles_loop w owner repo prNumber baseSha headSha page files tr = Some y"
proof (induction "k - page" arbitrary: page files tr rule: less_induct)
  case less
  let ?call = "ListFiles owner repo prNumber 100 page"
  show ?case
  proof (cases "pulls_listFiles w tr owner repo prNumber 100 page")
    case (Inl err)
    from getPrFiles_loop_listing_error [OF this] show ?thesis by blast
  next
    case (Inr data)
    obtain es new where page:
      "collect_page w owner repo baseSha headSha data files (tr @ [?call]) =
         ((tr @ [?call]) @ es, Inr (files @ new))"
      using collect_page_shape by blast
    show ?thesis
    proof (cases "length data < 100")
      case True
      from getPrFiles_loop_short_page [OF Inr True page] show ?thesis by blast
    next
      case False
      have "page < k"
      proof (rule ccontr)
        assume "\<not> page < k"
        then have "k \<le> page" by simp
        with assms have "short_page (pulls_listFiles w tr owner repo prNumber 100 page)"
          unfolding listing_ends_def by blast
        with Inr False show False by (simp add: short_page_def)
      qed
      then have "k - (page + 1) < k - page" by simp
      from less [OF this, of "files @ new" "(tr @ [?call]) @ es"]
      show ?thesis
        unfolding getPrFiles_loop_full_page [OF Inr False page] .
    qed
  qed
qed

lemma getPrFiles_loop_invariant:
  assumes run: "getPrFiles_loop w owner repo prNumber baseSha headSha page files tr = Some y"
  shows "list_all status_invariant files \<longrightarrow>
         (\<forall>tr' files'. y = (tr', Inr files') \<longrightarrow> list_all status_invariant files')"
proof (rule getPrFiles_loop.raw_induct
    [where P = "\<lambda>w owner repo prNumber baseSha headSha page files tr y.
        list_all status_invariant files \<longrightarrow>
        (\<forall>tr' files'. y = (tr', Inr files') \<longrightarrow> list_all status_invariant files')",
     OF _ run])
  fix loop :: "world \<Rightarrow> jsstring \<Rightarrow> jsstring \<Rightarrow> int \<Rightarrow> jsstring \<Rightarrow> jsstring \<Rightarrow> nat \<Rightarrow>
      changed_file list \<Rightarrow> event list \<Rightarrow> ((changed_file list) outcome) option"
  fix w owner repo prNumber baseSha headSha page files tr y
  let ?call = "ListFiles owner repo prNumber 100 page"
  assume IH: "\<And>w owner repo prNumber baseSha headSha page files tr y.
      loop w owner repo prNumber baseSha headSha page files tr = Some y \<Longrightarrow>
      list_all status_invariant files \<longrightarrow>
      (\<forall>tr' files'. y = (tr', Inr files') \<longrightarrow> list_all status_invariant files')"
  assume eq: "(case pulls_listFiles w tr owner repo prNumber 100 page of
        Inl err \<Rightarrow> Some (tr @ [?call], Inl err)
      | Inr data \<Rightarrow>
          if length data = 0 then Some (tr @ [?call], Inr files)
          else
            (case collect_page w owner repo baseSha headSha data files (tr @ [?call]) of
               (tr1, Inl err) \<Rightarrow> Some (tr1, Inl err)
             | (tr1, Inr files1) \<Rightarrow>
                 if length data < 100 then Some (tr1, Inr files1)
                 else loop w owner repo prNumber baseSha headSha (page + 1) files1 tr1)) = Some y"
  show "list_all status_invariant files \<longrightarrow>
        (\<forall>tr' files'. y = (tr', Inr files') \<longrightarrow> list_all status_invariant files')"
  proof (intro impI allI)
    fix tr' files'
    assume start: "list_all status_invariant files" and res: "y = (tr', Inr files')"
    show "list_all status_invariant files'"
    proof (cases "pulls_listFiles w tr owner repo prNumber 100 page")
      case (Inl err)
      with eq have "y = (tr @ [?call], Inl err)" by simp
      with res show ?thesis by simp
    next
      case (Inr data)
      obtain es new where page:
        "collect_page w owner repo baseSha headSha data files (tr @ [?call]) =
           ((tr @ [?call]) @ es, Inr (files @ new))" "list_all status_invariant new"
        using collect_page_shape by blast
      have inv: "list_all status_invariant (files @ new)"
        using page(2) start by simp
      from Inr page(1) eq have eq': "(if length data = 0 then Some (tr @ [?call], Inr files)
             else if length data < 100 then Some ((tr @ [?call]) @ es, Inr (files @ new))
             else loop w owner repo prNumber baseSha headSha (page + 1) (files @ new)
                    ((tr @ [?call]) @ es)) = Some y"
        by (auto split: if_splits)
      show ?thesis
      proof (cases "length data = 0")
        case True
        with eq' have "y = (tr @ [?call], Inr files)" by simp
        with res start show ?thesis by simp
      next
        case nonempty: False
        show ?thesis
        proof (cases "length data < 100")
          case True
          with eq' nonempty have "y = ((tr @ [?call]) @ es, Inr (files @ new))" by simp
          with res inv show ?thesis by simp
        next
          case False
          with eq' nonempty
          have "loop w owner repo prNumber baseSha headSha (page + 1) (files @ new)
                  ((tr @ [?call]) @ es) = Some y"
            by simp
          from IH [OF this] inv res show ?thesis by blast
        qed
      qed
    qed
  qed
qed

lemma upt_pages: "[p ..< p + (k + 1) + 1] = p # [p + 1 ..< p + 1 + k + 1]" for p k :: nat
proof -
  have "[p ..< p + (k + 1) + 1] = p # [Suc p ..< p + (k + 1) + 1]"
    by (rule upt_conv_Cons) simp
  moreover have "[Suc p ..< p + (k + 1) + 1] = [p + 1 ..< p + 1 + k + 1]"
    by (rule arg_cong2 [where f = upt]) simp_all
  ultimately show ?thesis by (simp only:)
qed

lemma getPrFiles_loop_paged:
  assumes paged: "paged_listing w xs"
  shows "1 \<le> page \<Longrightarrow>
    \<exists>es new. getPrFiles_loop w owner repo prNumber baseSha headSha page files tr =
        Some (tr @ es, Inr (files @ new)) \<and>
      filter is_ListFiles es =
        map (ListFiles owner repo prNumber 100)
          [page ..< page + length (drop ((page - 1) * 100) xs) div 100 + 1] \<and>
      list_all2 entry_matches (drop ((page - 1) * 100) xs) new"
proof (induction "length xs - (page - 1) * 100" arbitrary: page files tr rule: less_induct)
  case less
  let ?rest = "drop ((page - 1) * 100) xs"
  let ?call = "ListFiles owner repo prNumber 100 page"
  let ?loop = "getPrFiles_loop w owner repo prNumber baseSha headSha"
  have listing: "pulls_listFiles w tr owner repo prNumber 100 page = Inr (take 100 ?rest)"
    using paged by (simp add: paged_listing_def page_of_def)
  obtain es1 new1 where page:
    "collect_page w owner repo baseSha headSha (take 100 ?rest) files (tr @ [?call]) =
       ((tr @ [?call]) @ es1, Inr (files @ new1))"
    "list_all is_content_event es1" "list_all2 entry_matches (take 100 ?rest) new1"
    using collect_page_shape by blast
  have nolist: "filter is_ListFiles es1 = []"
    using page(2) by (rule filter_ListFiles_content)
  show ?case
  proof (cases "length ?rest < 100")
    case True
    then have short: "length (take 100 ?rest) < 100" by simp
    have whole: "take 100 ?rest = ?rest" using True by simp
    have pages: "length ?rest div 100 = 0" using True by simp
    have "?loop page files tr = Some ((tr @ [?call]) @ es1, Inr (files @ new1))"
      by (rule getPrFiles_loop_short_page [OF listing short page(1)])
    then have "?loop page files tr = Some (tr @ (?call # es1), Inr (files @ new1))"
      by simp
    moreover have "filter is_ListFiles (?call # es1) =
        map (ListFiles owner repo prNumber 100) [page ..< page + length ?rest div 100 + 1]"
      unfolding pages using nolist by simp
    moreover have "list_all2 entry_matches ?rest new1"
      using page(3) whole by simp
    ultimately show ?thesis by blast
  next
    case False
    then have full: "\<not> length (take 100 ?rest) < 100" by simp
    have step: "?loop page files tr = ?loop (page + 1) (files @ new1) ((tr @ [?call]) @ es1)"
      by (rule getPrFiles_loop_full_page [OF listing full page(1)])
    have offset: "(page + 1 - 1) * 100 = 100 + (page - 1) * 100"
      using less.prems by (cases page) simp_all
    have smaller: "length xs - (page + 1 - 1) * 100 < length xs - (page - 1) * 100"
      using False unfolding offset by simp
    have rest': "drop ((page + 1 - 1) * 100) xs = drop 100 ?rest"
      unfolding offset by (simp add: add.commute)
    have "1 \<le> page + 1" by simp
    from less.hyps [OF smaller this, of "files @ new1" "(tr @ [?call]) @ es1"]
    obtain es2 new2 where next_pages:
      "?loop (page + 1) (files @ new1) ((tr @ [?call]) @ es1) =
         Some (((tr @ [?call]) @ es1) @ es2, Inr ((files @ new1) @ new2))"
      "filter is_ListFiles es2 =
         map (ListFiles owner repo prNumber 100)
           [page + 1 ..< page + 1 + length (drop 100 ?rest) div 100 + 1]"
      "list_all2 entry_matches (drop 100 ?rest) new2"
      unfolding rest' by blast
    have count: "length ?rest div 100 = length (drop 100 ?rest) div 100 + 1"
    proof -
      have gen: "100 \<le> n \<Longrightarrow> n div 100 = (n - 100) div 100 + 1" for n :: nat
        by (simp add: le_div_geq)
      from False have "100 \<le> length ?rest" by simp
      from gen [OF this] show ?thesis
        by (simp only: length_drop [of 100 ?rest])
    qed
    have "?loop page files tr = Some (tr @ (?call # es1 @ es2), Inr (files @ (new1 @ new2)))"
      unfolding step next_pages(1) by simp
    moreover have "filter is_ListFiles (?call # es1 @ es2) =
        map (ListFiles owner repo prNumber 100) [page ..< page + length ?rest div 100 + 1]"
    proof -
      have pages_eq: "[page ..< page + length ?rest div 100 + 1] =
              page # [page + 1 ..< page + 1 + length (drop 100 ?rest) div 100 + 1]"
        unfolding count by (rule upt_pages)
      have "filter is_ListFiles (?call # es1 @ es2) = ?call # filter is_ListFiles es2"
        using nolist by simp
      also have "\<dots> = map (ListFiles owner repo prNumber 100)
          (page # [page + 1 ..< page + 1 + length (drop 100 ?rest) div 100 + 1])"
        unfolding next_pages(2) by (simp only: list.map)
      finally show ?thesis
        unfolding pages_eq .
    qed
    moreover have "list_all2 entry_matches ?rest (new1 @ new2)"
    proof -
      have "list_all2 entry_matches (take 100 ?rest @ drop 100 ?rest) (new1 @ new2)"
        using page(3) next_pages(3) by (rule list_all2_appendI)
      then show ?thesis by (simp only: append_take_drop_id)
    qed
    ultimately show ?thesis by blast
  qed
qed

lemma page_of_full:
  "1 \<le> p \<Longrightarrow> p \<le> length xs div 100 \<Longrightarrow> length (page_of xs 100 p) = 100"
proof -
  assume p: "1 \<le> p" "p \<le> length xs div 100"
  then have "p * 100 \<le> length xs div 100 * 100" by simp
  also have "\<dots> \<le> length xs" by simp
  finally have "p * 100 \<le> length xs" .
  moreover have "p * 100 = (p - 1) * 100 + 100" using p(1) by (cases p) simp_all
  ultimately show ?thesis by (simp add: page_of_def)
qed

lemma page_of_last: "length (page_of xs 100 (length xs div 100 + 1)) < 100"
proof -
  have "length xs - length xs div 100 * 100 = length xs mod 100"
    by (simp add: minus_div_mult_eq_mod)
  then show ?thesis by (simp add: page_of_def)
qed

lemma getFileContent_requests:
  "\<exists>es r. getFileContent w owner repo path ref tr = (tr @ es, Inr r) \<and>
     filter is_GetContent es = [GetContent owner repo path ref]"
  by (auto simp: getFileContent_def getFileContent_try_def Let_def
      split: sum.splits content_data.splits option.splits)

lemma collect_file_requests:
  "\<exists>es entry. collect_file w owner repo baseSha headSha f tr = (tr @ es, Inr entry) \<and>
     filter is_GetContent es =
       (if rf_status f = str ''added'' then [] else [GetContent owner repo (rf_filename f) baseSha]) @
       (if rf_status f = str ''removed'' then []
        else [GetContent owner repo (rf_filename f) headSha])"
proof -
  obtain es1 r1 where base:
    "getFileContent w owner repo (rf_filename f) baseSha tr = (tr @ es1, Inr r1)"
    "filter is_GetContent es1 = [GetContent owner repo (rf_filename f) baseSha]"
    using getFileContent_requests by blast
  obtain es2 r2 where head:
    "getFileContent w owner repo (rf_filename f) headSha tr = (tr @ es2, Inr r2)"
    "filter is_GetContent es2 = [GetContent owner repo (rf_filename f) headSha]"
    using getFileContent_requests by blast
  obtain es3 r3 where head':
    "getFileContent w owner repo (rf_filename f) headSha (tr @ es1) = ((tr @ es1) @ es3, Inr r3)"
    "filter is_GetContent es3 = [GetContent owner repo (rf_filename f) headSha]"
    using getFileContent_requests by blast
  show ?thesis
  proof (cases "rf_status f = str ''added''")
    case True
    then have "rf_status f \<noteq> str ''removed''" by (simp add: str_def)
    with True head show ?thesis
      by (simp add: collect_file_def Let_def)
  next
    case False
    show ?thesis
    proof (cases "rf_status f = str ''removed''")
      case True
      with False base show ?thesis
        by (simp add: collect_file_def Let_def)
    next
      case notremoved: False
      have "collect_file w owner repo baseSha headSha f tr =
          (tr @ (es1 @ es3),
           Inr \<lparr>cf_filename = rf_filename f, cf_status = rf_status f,
                cf_additions = rf_additions f, cf_deletions = rf_deletions f,
                cf_changes = rf_changes f,
                cf_patch = (case rf_patch f of None \<Rightarrow> None
                            | Some p \<Rightarrow> if p = [] then None else Some p),
                cf_base_content = r1, cf_head_content = r3\<rparr>)"
        using False notremoved by (simp add: collect_file_def Let_def base(1) head'(1))
      moreover have "filter is_GetContent (es1 @ es3) =
          [GetContent owner repo (rf_filename f) baseSha] @
          [GetContent owner repo (rf_filename f) headSha]"
        using base(2) head'(2) by simp
      ultimately show ?thesis
        using False notremoved by (simp only: if_False) blast
    qed
  qed
qed

lemma collect_file_base_error:
  assumes "rf_status f \<noteq> str ''added''"
    and "repos_getContent w tr owner repo (rf_filename f) baseSha = Inl err"
    and "collect_file w owner repo baseSha headSha f tr = (tr2, Inr entry)"
  shows "cf_base_content entry = None"
proof -
  let ?t = "tr @ [GetContent owner repo (rf_filename f) baseSha,
                  Log LogError [FieldErr err, FieldPath (rf_filename f), FieldRef baseSha]
                    ''Failed to fetch file content from GitHub'']"
  have base: "getFileContent w owner repo (rf_filename f) baseSha tr = (?t, Inr None)"
    by (rule getFileContent_error [OF assms(2)])
  obtain es r where head:
    "getFileContent w owner repo (rf_filename f) headSha ?t = (?t @ es, Inr r)"
    using getFileContent_shape by blast
  from assms(1,3) show ?thesis
    by (auto simp: collect_file_def Let_def base head split: if_splits)
qed

lemma collect_file_head_error:
  assumes "rf_status f \<noteq> str ''removed''"
    and "(if rf_status f = str ''added'' then (tr, Inr None)
          else getFileContent w owner repo (rf_filename f) baseSha tr) = (tr1, r)"
    and "repos_getContent w tr1 owner repo (rf_filename f) headSha = Inl err"
    and "collect_file w owner repo baseSha headSha f tr = (tr2, Inr entry)"
  shows "cf_head_content entry = None"
proof -
  have head: "getFileContent w owner repo (rf_filename f) headSha tr1 =
      (tr1 @ [GetContent owner repo (rf_filename f) headSha,
              Log LogError [FieldErr err, FieldPath (rf_filename f), FieldRef headSha]
                ''Failed to fetch file content from GitHub''], Inr None)"
    by (rule getFileContent_error [OF assms(3)])
  from assms(1,4) show ?thesis
    unfolding collect_file_def Let_def assms(2)
    by (cases r) (auto simp: head)
qed

section \<open>Properties of callBackend and the handlers\<close>

lemma callBackend_try_shape:
  "\<exists>es res. callBackend_try w url p tr = (tr @ es, res) \<and> list_all (\<lambda>e. \<not> is_write e) es"
  by (auto simp: callBackend_try_def Let_def split: sum.splits jsval.splits)

lemma callBackend_shape:
  "\<exists>es r. callBackend w p tr = (tr @ es, Inr r) \<and> list_all (\<lambda>e. \<not> is_write e) es"
proof (cases "env_BACKEND_URL w")
  case None
  then show ?thesis by (simp add: callBackend_def)
next
  case (Some url)
  let ?tr0 = "tr @ [Log LogInfo [FieldPayload p] ''Sending payload to backend'']"
  obtain es res where attempt:
    "callBackend_try w url p ?tr0 = (?tr0 @ es, res)" "list_all (\<lambda>e. \<not> is_write e) es"
    using callBackend_try_shape by blast
  show ?thesis
  proof (cases "url = []")
    case True
    with Some show ?thesis by (simp add: callBackend_def)
  next
    case False
    with Some attempt show ?thesis
      by (cases res) (simp_all add: callBackend_def Let_def)
  qed
qed

lemma callBackend_transport_error:
  assumes "env_BACKEND_URL w = Some url" "url \<noteq> []"
    and "axios_post w (tr @ [Log LogInfo [FieldPayload p] ''Sending payload to backend'']) url p
           = Inl err"
  shows "callBackend w p tr =
     (tr @ [Log LogInfo [FieldPayload p] ''Sending payload to backend'', AxiosPost url p,
            Log LogError [FieldErr err] ''Error calling backend''], Inr None)"
  using assms by (simp add: callBackend_def callBackend_try_def Let_def)

lemma callBackend_not_a_string:
  assumes "env_BACKEND_URL w = Some url" "url \<noteq> []"
    and "axios_post w (tr @ [Log LogInfo [FieldPayload p] ''Sending payload to backend'']) url p
           = Inr data"
    and "\<forall>s. get_prop data (str ''comment'') \<noteq> Inr (Str s)"
  shows "snd (callBackend w p tr) = Inr None"
  using assms
  by (auto simp: callBackend_def callBackend_try_def Let_def split: sum.splits jsval.splits)

lemma callBackend_blank:
  assumes "env_BACKEND_URL w = Some url" "url \<noteq> []"
    and "axios_post w (tr @ [Log LogInfo [FieldPayload p] ''Sending payload to backend'']) url p
           = Inr data"
    and "get_prop data (str ''comment'') = Inr (Str s)"
    and "\<forall>c \<in> set s. is_js_whitespace c"
  shows "callBackend w p tr =
     (tr @ [Log LogInfo [FieldPayload p] ''Sending payload to backend'', AxiosPost url p,
            Log LogCall [] ''Backend returned empty comment, skipping.''], Inr None)"
proof -
  from assms(5) have "js_trim s = []" by (simp add: js_trim_empty_iff)
  with assms(1-4) show ?thesis
    by (simp add: callBackend_def callBackend_try_def Let_def)
qed

lemma callBackend_comment:
  assumes "env_BACKEND_URL w = Some url" "url \<noteq> []"
    and "axios_post w (tr @ [Log LogInfo [FieldPayload p] ''Sending payload to backend'']) url p
           = Inr data"
    and "get_prop data (str ''comment'') = Inr (Str s)"
    and "\<exists>c \<in> set s. \<not> is_js_whitespace c"
  shows "callBackend w p tr =
     (tr @ [Log LogInfo [FieldPayload p] ''Sending payload to backend'', AxiosPost url p],
      Inr (Some s))"
proof -
  from assms(5) have trim: "js_trim s \<noteq> []" by (simp add: js_trim_empty_iff)
  then have "s \<noteq> []" by (auto simp: js_trim_def)
  with trim assms(1-4) show ?thesis
    by (simp add: callBackend_def callBackend_try_def Let_def)
qed

lemma content_event_not_write: "is_content_event e \<Longrightarrow> \<not> is_write e"
  by (cases e) (simp_all add: is_content_event_def)

lemma collect_page_no_write:
  "\<exists>es files1. collect_page w owner repo baseSha headSha data files tr = (tr @ es, Inr files1) \<and>
     list_all (\<lambda>e. \<not> is_write e) es"
proof -
  obtain es new where
    "collect_page w owner repo baseSha headSha data files tr = (tr @ es, Inr (files @ new))"
    "list_all is_content_event es"
    using collect_page_shape by blast
  then show ?thesis
    by (auto simp: list_all_iff content_event_not_write)
qed

lemma getPrFiles_loop_no_write:
  assumes run: "getPrFiles_loop w owner repo prNumber baseSha headSha page files tr = Some y"
  shows "\<exists>es. fst y = tr @ es \<and> list_all (\<lambda>e. \<not> is_write e) es"
proof (rule getPrFiles_loop.raw_induct
    [where P = "\<lambda>w owner repo prNumber baseSha headSha page files tr y.
        \<exists>es. fst y = tr @ es \<and> list_all (\<lambda>e. \<not> is_write e) es",
     OF _ run])
  fix loop :: "world \<Rightarrow> jsstring \<Rightarrow> jsstring \<Rightarrow> int \<Rightarrow> jsstring \<Rightarrow> jsstring \<Rightarrow> nat \<Rightarrow>
      changed_file list \<Rightarrow> event list \<Rightarrow> ((changed_file list) outcome) option"
  fix w owner repo prNumber baseSha headSha page files tr y
  let ?call = "ListFiles owner repo prNumber 100 page"
  assume IH: "\<And>w owner repo prNumber baseSha headSha page files tr y.
      loop w owner repo prNumber baseSha headSha page files tr = Some y \<Longrightarrow>
      \<exists>es. fst y = tr @ es \<and> list_all (\<lambda>e. \<not> is_write e) es"
  assume eq: "(case pulls_listFiles w tr owner repo prNumber 100 page of
        Inl err \<Rightarrow> Some (tr @ [?call], Inl err)
      | Inr data \<Rightarrow>
          if length data = 0 then Some (tr @ [?call], Inr files)
          else
            (case collect_page w owner repo baseSha headSha data files (tr @ [?call]) of
               (tr1, Inl err) \<Rightarrow> Some (tr1, Inl err)
             | (tr1, Inr files1) \<Rightarrow>
                 if length data < 100 then Some (tr1, Inr files1)
                 else loop w owner repo prNumber baseSha headSha (page + 1) files1 tr1)) = Some y"
  show "\<exists>es. fst y = tr @ es \<and> list_all (\<lambda>e. \<not> is_write e) es"
  proof (cases "pulls_listFiles w tr owner repo prNumber 100 page")
    case (Inl err)
    with eq have "fst y = tr @ [?call]" by auto
    then show ?thesis by auto
  next
    case (Inr data)
    obtain es1 files1 where page:
      "collect_page w owner repo baseSha headSha data files (tr @ [?call]) =
         ((tr @ [?call]) @ es1, Inr files1)" "list_all (\<lambda>e. \<not> is_write e) es1"
      using collect_page_no_write by blast
    from Inr page(1) eq have eq': "(if length data = 0 then Some (tr @ [?call], Inr files)
           else if length data < 100 then Some ((tr @ [?call]) @ es1, Inr files1)
           else loop w owner repo prNumber baseSha headSha (page + 1) files1
                  ((tr @ [?call]) @ es1)) = Some y"
      by (auto split: if_splits)
    show ?thesis
    proof (cases "length data = 0")
      case True
      with eq' have "fst y = tr @ [?call]" by auto
      then show ?thesis by auto
    next
      case nonempty: False
      show ?thesis
      proof (cases "length data < 100")
        case True
        with eq' nonempty have "fst y = tr @ (?call # es1)" by auto
        moreover have "list_all (\<lambda>e. \<not> is_write e) (?call # es1)"
          using page(2) by simp
        ultimately show ?thesis by blast
      next
        case False
        with eq' nonempty
        have "loop w owner repo prNumber baseSha headSha (page + 1) files1
                ((tr @ [?call]) @ es1) = Some y"
          by simp
        from IH [OF this] obtain es2 where
          "fst y = ((tr @ [?call]) @ es1) @ es2" "list_all (\<lambda>e. \<not> is_write e) es2"
          by blast
        then have "fst y = tr @ (?call # es1 @ es2)"
          "list_all (\<lambda>e. \<not> is_write e) (?call # es1 @ es2)"
          using page(2) by simp_all
        then show ?thesis by blast
      qed
    qed
  qed
qed

lemma getPrFiles_no_write:
  "getPrFiles w owner repo prNumber baseSha headSha tr = Some (tr1, res) \<Longrightarrow>
   \<exists>es. tr1 = tr @ es \<and> list_all (\<lambda>e. \<not> is_write e) es"
  using getPrFiles_loop_no_write [of w owner repo prNumber baseSha headSha 1 "[]" tr "(tr1, res)"]
  by (simp add: getPrFiles_def)

lemma getPrFiles_terminates:
  "listing_ends w k \<Longrightarrow>
   \<exists>tr1 res. getPrFiles w owner repo prNumber baseSha headSha tr = Some (tr1, res)"
  using getPrFiles_loop_terminates [of w k owner repo prNumber baseSha headSha 1 "[]" tr]
  by (auto simp: getPrFiles_def)

lemma review_submitted_try_total:
  assumes "listing_ends w k"
  shows "\<exists>tr' res. review_submitted_try w ctx tr = Some (tr', res)"
proof -
  obtain tr1 res1 where
    "getPrFiles w (owner_login (repo_owner (payload_repository ctx)))
       (repo_name (payload_repository ctx)) (pr_number (payload_pull_request ctx))
       (sha (pr_base (payload_pull_request ctx))) (sha (pr_head (payload_pull_request ctx))) tr =
     Some (tr1, res1)"
    using getPrFiles_terminates [OF assms] by blast
  then show ?thesis
    by (auto simp: review_submitted_try_def Let_def split: option.splits sum.splits prod.splits)
qed

lemma review_comment_created_try_total:
  assumes "listing_ends w k"
  shows "\<exists>tr' res. review_comment_created_try w ctx tr = Some (tr', res)"
proof -
  obtain tr1 res1 where
    "getPrFiles w (owner_login (repo_owner (payload_repository ctx)))
       (repo_name (payload_repository ctx)) (pr_number (payload_pull_request ctx))
       (sha (pr_base (payload_pull_request ctx))) (sha (pr_head (payload_pull_request ctx))) tr =
     Some (tr1, res1)"
    using getPrFiles_terminates [OF assms] by blast
  then show ?thesis
    by (auto simp: review_comment_created_try_def Let_def
        split: option.splits sum.splits prod.splits)
qed

lemma review_submitted_caught:
  "review_submitted_try w ctx tr = Some (tr1, Inl err) \<Longrightarrow>
   review_submitted w ctx tr =
     Some (tr1 @ [Log LogError [FieldErr err]
                    ''Error while handling pull_request_review.submitted''], Inr ())"
  by (simp add: review_submitted_def)

lemma review_submitted_returned:
  "review_submitted_try w ctx tr = Some (tr1, Inr u) \<Longrightarrow>
   review_submitted w ctx tr = Some (tr1, Inr ())"
  by (simp add: review_submitted_def)

lemma review_submitted_never_raises:
  "review_submitted w ctx tr = Some (tr', res) \<Longrightarrow> res = Inr ()"
  by (auto simp: review_submitted_def split: option.splits sum.splits prod.splits)

lemma review_submitted_completes:
  assumes "listing_ends w k"
  shows "\<exists>tr'. review_submitted w ctx tr = Some (tr', Inr ())"
proof -
  obtain tr1 res where "review_submitted_try w ctx tr = Some (tr1, res)"
    using review_submitted_try_total [OF assms] by blast
  then show ?thesis
    by (cases res) (simp_all add: review_submitted_def)
qed

lemma review_comment_created_caught:
  "review_comment_created_try w ctx tr = Some (tr1, Inl err) \<Longrightarrow>
   review_comment_created w ctx tr =
     Some (tr1 @ [Log LogError [FieldErr err]
                    ''Error while handling pull_request_review_comment.created''], Inr ())"
  by (simp add: review_comment_created_def)

lemma review_comment_created_returned:
  "review_comment_created_try w ctx tr = Some (tr1, Inr u) \<Longrightarrow>
   review_comment_created w ctx tr = Some (tr1, Inr ())"
  by (simp add: review_comment_created_def)

lemma review_comment_created_never_raises:
  "review_comment_created w ctx tr = Some (tr', res) \<Longrightarrow> res = Inr ()"
  by (auto simp: review_comment_created_def split: option.splits sum.splits prod.splits)

lemma review_comment_created_completes:
  assumes "listing_ends w k"
  shows "\<exists>tr'. review_comment_created w ctx tr = Some (tr', Inr ())"
proof -
  obtain tr1 res where "review_comment_created_try w ctx tr = Some (tr1, res)"
    using review_comment_created_try_total [OF assms] by blast
  then show ?thesis
    by (cases res) (simp_all add: review_comment_created_def)
qed

text \<open>The paths through the review handler.\<close>

lemma review_submitted_try_bot:
  "isFromBot ctx \<Longrightarrow>
   review_submitted_try w ctx tr =
     Some (tr @ [Log LogCall [] ''Skipping pull_request_review from bot sender.''], Inr ())"
  by (simp add: review_submitted_try_def)

lemma review_submitted_try_no_review:
  "\<not> isFromBot ctx \<Longrightarrow> payload_review ctx = None \<Longrightarrow>
   review_submitted_try w ctx tr = Some (tr, Inl TypeError)"
  by (simp add: review_submitted_try_def)

lemma review_submitted_try_blank:
  "\<not> isFromBot ctx \<Longrightarrow> payload_review ctx = Some rv \<Longrightarrow>
   js_trim (or_empty (review_body rv)) = [] \<Longrightarrow>
   review_submitted_try w ctx tr =
     Some (tr @ [Log LogCall [] ''Review body empty, skipping.''], Inr ())"
  by (simp add: review_submitted_try_def Let_def)

lemma review_submitted_try_listing_error:
  "\<not> isFromBot ctx \<Longrightarrow> payload_review ctx = Some rv \<Longrightarrow>
   js_trim (or_empty (review_body rv)) \<noteq> [] \<Longrightarrow>
   getPrFiles w (owner_login (repo_owner (payload_repository ctx)))
     (repo_name (payload_repository ctx)) (pr_number (payload_pull_request ctx))
     (sha (pr_base (payload_pull_request ctx))) (sha (pr_head (payload_pull_request ctx))) tr =
     Some (tr1, Inl err) \<Longrightarrow>
   review_submitted_try w ctx tr = Some (tr1, Inl err)"
  by (simp add: review_submitted_try_def Let_def)

lemma review_submitted_try_no_comment:
  "\<not> isFromBot ctx \<Longrightarrow> payload_review ctx = Some rv \<Longrightarrow>
   js_trim (or_empty (review_body rv)) \<noteq> [] \<Longrightarrow>
   getPrFiles w (owner_login (repo_owner (payload_repository ctx)))
     (repo_name (payload_repository ctx)) (pr_number (payload_pull_request ctx))
     (sha (pr_base (payload_pull_request ctx))) (sha (pr_head (payload_pull_request ctx))) tr =
     Some (tr1, Inr files) \<Longrightarrow>
   callBackend w (review_payload ctx rv files) tr1 = (tr2, Inr None) \<Longrightarrow>
   review_submitted_try w ctx tr = Some (tr2, Inr ())"
  by (simp add: review_submitted_try_def Let_def)

lemma review_submitted_try_posted:
  "\<not> isFromBot ctx \<Longrightarrow> payload_review ctx = Some rv \<Longrightarrow>
   js_trim (or_empty (review_body rv)) \<noteq> [] \<Longrightarrow>
   getPrFiles w (owner_login (repo_owner (payload_repository ctx)))
     (repo_name (payload_repository ctx)) (pr_number (payload_pull_request ctx))
     (sha (pr_base (payload_pull_request ctx))) (sha (pr_head (payload_pull_request ctx))) tr =
     Some (tr1, Inr files) \<Longrightarrow>
   callBackend w (review_payload ctx rv files) tr1 = (tr2, Inr (Some body)) \<Longrightarrow> body \<noteq> [] \<Longrightarrow>
   review_submitted_try w ctx tr =
     Some (tr2 @ [CreateComment (owner_login (repo_owner (payload_repository ctx)))
                    (repo_name (payload_repository ctx))
                    (pr_number (payload_pull_request ctx)) body],
           case issues_createComment w tr2 (owner_login (repo_owner (payload_repository ctx)))
                  (repo_name (payload_repository ctx))
                  (pr_number (payload_pull_request ctx)) body of
             Inl err \<Rightarrow> Inl err | Inr u \<Rightarrow> Inr ())"
  by (simp add: review_submitted_try_def Let_def split: sum.splits)

text \<open>The paths through the inline comment handler.\<close>

lemma review_comment_created_try_bot:
  "isFromBot ctx \<Longrightarrow>
   review_comment_created_try w ctx tr =
     Some (tr @ [Log LogCall [] ''Skipping pull_request_review_comment from bot sender.''],
           Inr ())"
  by (simp add: review_comment_created_try_def)

lemma review_comment_created_try_no_comment_object:
  "\<not> isFromBot ctx \<Longrightarrow> payload_comment ctx = None \<Longrightarrow>
   review_comment_created_try w ctx tr = Some (tr, Inl TypeError)"
  by (simp add: review_comment_created_try_def)

lemma review_comment_created_try_blank:
  "\<not> isFromBot ctx \<Longrightarrow> payload_comment ctx = Some cm \<Longrightarrow>
   js_trim (or_empty (comment_body cm)) = [] \<Longrightarrow>
   review_comment_created_try w ctx tr =
     Some (tr @ [Log LogCall [] ''Inline comment body empty, skipping.''], Inr ())"
  by (simp add: review_comment_created_try_def Let_def)

lemma review_comment_created_try_listing_error:
  "\<not> isFromBot ctx \<Longrightarrow> payload_comment ctx = Some cm \<Longrightarrow>
   js_trim (or_empty (comment_body cm)) \<noteq> [] \<Longrightarrow>
   getPrFiles w (owner_login (repo_owner (payload_repository ctx)))
     (repo_name (payload_repository ctx)) (pr_number (payload_pull_request ctx))
     (sha (pr_base (payload_pull_request ctx))) (sha (pr_head (payload_pull_request ctx))) tr =
     Some (tr1, Inl err) \<Longrightarrow>
   review_comment_created_try w ctx tr = Some (tr1, Inl err)"
  by (simp add: review_comment_created_try_def Let_def)

lemma review_comment_created_try_no_comment:
  "\<not> isFromBot ctx \<Longrightarrow> payload_comment ctx = Some cm \<Longrightarrow>
   js_trim (or_empty (comment_body cm)) \<noteq> [] \<Longrightarrow>
   getPrFiles w (owner_login (repo_owner (payload_repository ctx)))
     (repo_name (payload_repository ctx)) (pr_number (payload_pull_request ctx))
     (sha (pr_base (payload_pull_request ctx))) (sha (pr_head (payload_pull_request ctx))) tr =
     Some (tr1, Inr files) \<Longrightarrow>
   callBackend w (comment_payload ctx cm files) tr1 = (tr2, Inr None) \<Longrightarrow>
   review_comment_created_try w ctx tr = Some (tr2, Inr ())"
  by (simp add: review_comment_created_try_def Let_def)

lemma review_comment_created_try_posted:
  "\<not> isFromBot ctx \<Longrightarrow> payload_comment ctx = Some cm \<Longrightarrow>
   js_trim (or_empty (comment_body cm)) \<noteq> [] \<Longrightarrow>
   getPrFiles w (owner_login (repo_owner (payload_repository ctx)))
     (repo_name (payload_repository ctx)) (pr_number (payload_pull_request ctx))
     (sha (pr_base (payload_pull_request ctx))) (sha (pr_head (payload_pull_request ctx))) tr =
     Some (tr1, Inr files) \<Longrightarrow>
   callBackend w (comment_payload ctx cm files) tr1 = (tr2, Inr (Some body)) \<Longrightarrow> body \<noteq> [] \<Longrightarrow>
   review_comment_created_try w ctx tr =
     (case pulls_createReplyForReviewComment w tr2
             (owner_login (repo_owner (payload_repository ctx)))
             (repo_name (payload_repository ctx))
             (pr_number (payload_pull_request ctx)) (comment_id cm) body of
        Inl err \<Rightarrow>
          Some (tr2 @ [CreateReply (owner_login (repo_owner (payload_repository ctx)))
                         (repo_name (payload_repository ctx))
                         (pr_number (payload_pull_request ctx)) (comment_id cm) body], Inl err)
      | Inr u \<Rightarrow>
          Some (tr2 @ [CreateReply (owner_login (repo_owner (payload_repository ctx)))
                         (repo_name (payload_repository ctx))
                         (pr_number (payload_pull_request ctx)) (comment_id cm) body,
                       Log LogInfo [] ''Replied to inline review comment.''], Inr ()))"
  by (simp add: review_comment_created_try_def Let_def)

section \<open>Claims\<close>

text \<open>
  C6. \<open>isFromBot\<close> is false when the event has no sender; true when the sender's
  type is \<^verbatim>\<open>"Bot"\<close>; true when the sender's login ends with the literal suffix
  \<^verbatim>\<open>"[bot]"\<close>; and false in every other case.
\<close>

theorem isFromBot_cases:
  "isFromBot ctx \<longleftrightarrow>
     (\<exists>s. payload_sender ctx = Some s \<and>
        (sender_type s = Some (str ''Bot'') \<or>
         (\<exists>login prefix. sender_login s = Some login \<and> login = prefix @ str ''[bot]'')))"
  by (rule isFromBot_iff)

text \<open>
  C7. \<open>getFileContent\<close> never throws: it always returns a value. A transport or
  not-found error is caught, logged with the error, \<open>path\<close> and \<open>ref\<close>, and turned
  into \<^verbatim>\<open>null\<close>, and so is an error of the decoder; a directory listing and an entry
  without content give \<^verbatim>\<open>null\<close> as well, with nothing logged.
\<close>

theorem getFileContent_never_throws:
  "(\<exists>tr' r. getFileContent w owner repo path ref tr = (tr', Inr r)) \<and>
   (\<forall>err. repos_getContent w tr owner repo path ref = Inl err \<longrightarrow>
      getFileContent w owner repo path ref tr =
        (tr @ [GetContent owner repo path ref,
               Log LogError [FieldErr err, FieldPath path, FieldRef ref]
                 ''Failed to fetch file content from GitHub''], Inr None)) \<and>
   (\<forall>entries. repos_getContent w tr owner repo path ref = Inr (DirListing entries) \<longrightarrow>
      getFileContent w owner repo path ref tr = (tr @ [GetContent owner repo path ref], Inr None)) \<and>
   (\<forall>data. repos_getContent w tr owner repo path ref = Inr (SingleEntry data) \<and>
      fe_content data = None \<longrightarrow>
      getFileContent w owner repo path ref tr = (tr @ [GetContent owner repo path ref], Inr None)) \<and>
   (\<forall>data content err.
      repos_getContent w tr owner repo path ref = Inr (SingleEntry data) \<and>
      fe_content data = Some content \<and> content \<noteq> [] \<and>
      buffer_decode w content
        (case fe_encoding data of None \<Rightarrow> str ''base64''
         | Some e \<Rightarrow> if e = [] then str ''base64'' else e) = Inl err \<longrightarrow>
      getFileContent w owner repo path ref tr =
        (tr @ [GetContent owner repo path ref,
               Log LogError [FieldErr err, FieldPath path, FieldRef ref]
                 ''Failed to fetch file content from GitHub''], Inr None))"
proof (intro conjI allI impI)
  show "\<exists>tr' r. getFileContent w owner repo path ref tr = (tr', Inr r)"
    using getFileContent_shape by blast
qed (auto simp: getFileContent_error getFileContent_directory getFileContent_no_content
       getFileContent_decode_error)

theorem getFileContent_never_throws_witness:
  "getFileContent
     (static_world None (\<lambda>path ref. Inl (RequestError 404)) (\<lambda>per_page page. Inr [])
        (Inr Null) (Inr ()))
     (str ''octo'') (str ''repo'') (str ''src/a.js'') (str ''abc123'') [] =
   ([GetContent (str ''octo'') (str ''repo'') (str ''src/a.js'') (str ''abc123''),
     Log LogError
       [FieldErr (RequestError 404), FieldPath (str ''src/a.js''), FieldRef (str ''abc123'')]
       ''Failed to fetch file content from GitHub''], Inr None)"
  using getFileContent_never_throws
    [of "static_world None (\<lambda>path ref. Inl (RequestError 404)) (\<lambda>per_page page. Inr [])
           (Inr Null) (Inr ())"
        "str ''octo''" "str ''repo''" "str ''src/a.js''" "str ''abc123''" "[]"]
  by (simp add: static_world_def)

text \<open>
  C9. When the content API returns a single entry whose content is the empty string,
  \<open>getFileContent\<close> returns \<^verbatim>\<open>null\<close>, not the empty text.
\<close>

theorem getFileContent_empty_file:
  "repos_getContent w tr owner repo path ref = Inr (SingleEntry data) \<Longrightarrow>
   fe_content data = Some [] \<Longrightarrow>
   getFileContent w owner repo path ref tr = (tr @ [GetContent owner repo path ref], Inr None)"
  by (simp add: getFileContent_no_content)

theorem getFileContent_empty_file_witness:
  "getFileContent
     (static_world None (\<lambda>path ref. text_file []) (\<lambda>per_page page. Inr []) (Inr Null) (Inr ()))
     (str ''octo'') (str ''repo'') (str ''empty.txt'') (str ''abc123'') [] =
   ([GetContent (str ''octo'') (str ''repo'') (str ''empty.txt'') (str ''abc123'')], Inr None)"
  using getFileContent_empty_file
    [of "static_world None (\<lambda>path ref. text_file []) (\<lambda>per_page page. Inr [])
           (Inr Null) (Inr ())"
        "[]" "str ''octo''" "str ''repo''" "str ''empty.txt''" "str ''abc123''"
        "\<lparr>fe_content = Some [], fe_encoding = None\<rparr>"]
  by (simp add: static_world_def text_file_def str_def)

text \<open>
  C1. Every entry that \<open>getPrFiles\<close> returns has no base content when its status is
  \<^verbatim>\<open>"added"\<close> and no head content when its status is \<^verbatim>\<open>"removed"\<close>, on
  every page; and \<open>getPrFiles\<close> does return when the listing ends.
\<close>

theorem getPrFiles_added_removed:
  "(listing_ends w k \<longrightarrow>
      (\<exists>tr' res. getPrFiles w owner repo prNumber baseSha headSha tr = Some (tr', res))) \<and>
   (\<forall>tr' files.
      getPrFiles w owner repo prNumber baseSha headSha tr = Some (tr', Inr files) \<longrightarrow>
      (\<forall>entry \<in> set files.
         (cf_status entry = str ''added'' \<longrightarrow> cf_base_content entry = None) \<and>
         (cf_status entry = str ''removed'' \<longrightarrow> cf_head_content entry = None)))"
proof (intro conjI impI allI)
  assume "listing_ends w k"
  from getPrFiles_loop_terminates [OF this, of owner repo prNumber baseSha headSha 1 "[]" tr]
  show "\<exists>tr' res. getPrFiles w owner repo prNumber baseSha headSha tr = Some (tr', res)"
    by (auto simp: getPrFiles_def)
next
  fix tr' files
  assume "getPrFiles w owner repo prNumber baseSha headSha tr = Some (tr', Inr files)"
  then have "getPrFiles_loop w owner repo prNumber baseSha headSha 1 [] tr = Some (tr', Inr files)"
    by (simp add: getPrFiles_def)
  from getPrFiles_loop_invariant [OF this] have "list_all status_invariant files"
    by simp
  then show "\<forall>entry \<in> set files.
         (cf_status entry = str ''added'' \<longrightarrow> cf_base_content entry = None) \<and>
         (cf_status entry = str ''removed'' \<longrightarrow> cf_head_content entry = None)"
    by (simp add: list_all_iff status_invariant_def)
qed

theorem getPrFiles_added_removed_witness:
  "getPrFiles
     (static_world None (\<lambda>path ref. text_file ''eA=='')
        (\<lambda>per_page page. Inr (page_of [file_named ''new.js'' ''added'',
                                         file_named ''old.js'' ''removed''] per_page page))
        (Inr Null) (Inr ()))
     (str ''octo'') (str ''repo'') 7 (str ''b0'') (str ''h1'') [] =
   Some ([ListFiles (str ''octo'') (str ''repo'') 7 100 1,
          GetContent (str ''octo'') (str ''repo'') (str ''new.js'') (str ''h1''),
          GetContent (str ''octo'') (str ''repo'') (str ''old.js'') (str ''b0'')],
         Inr [\<lparr>cf_filename = str ''new.js'', cf_status = str ''added'', cf_additions = 1,
                 cf_deletions = 0, cf_changes = 1, cf_patch = None,
                 cf_base_content = None, cf_head_content = Some (str ''eA=='')\<rparr>,
              \<lparr>cf_filename = str ''old.js'', cf_status = str ''removed'', cf_additions = 1,
                 cf_deletions = 0, cf_changes = 1, cf_patch = None,
                 cf_base_content = Some (str ''eA==''), cf_head_content = None\<rparr>]) \<and>
   listing_ends
     (static_world None (\<lambda>path ref. text_file ''eA=='')
        (\<lambda>per_page page. Inr (page_of [file_named ''new.js'' ''added'',
                                         file_named ''old.js'' ''removed''] per_page page))
        (Inr Null) (Inr ())) 1"
proof -
  let ?w = "static_world None (\<lambda>path ref. text_file ''eA=='')
        (\<lambda>per_page page. Inr (page_of [file_named ''new.js'' ''added'',
                                         file_named ''old.js'' ''removed''] per_page page))
        (Inr Null) (Inr ())"
  have ends: "listing_ends ?w 1"
    by (auto simp: listing_ends_def short_page_def static_world_def page_of_def)
  with getPrFiles_added_removed
         [of ?w 1 "str ''octo''" "str ''repo''" 7 "str ''b0''" "str ''h1''" "[]"]
  obtain tr' res where run:
    "getPrFiles ?w (str ''octo'') (str ''repo'') 7 (str ''b0'') (str ''h1'') [] = Some (tr', res)"
    by blast
  have "getPrFiles ?w (str ''octo'') (str ''repo'') 7 (str ''b0'') (str ''h1'') [] =
     Some ([ListFiles (str ''octo'') (str ''repo'') 7 100 1,
          GetContent (str ''octo'') (str ''repo'') (str ''new.js'') (str ''h1''),
          GetContent (str ''octo'') (str ''repo'') (str ''old.js'') (str ''b0'')],
         Inr [\<lparr>cf_filename = str ''new.js'', cf_status = str ''added'', cf_additions = 1,
                 cf_deletions = 0, cf_changes = 1, cf_patch = None,
                 cf_base_content = None, cf_head_content = Some (str ''eA=='')\<rparr>,
              \<lparr>cf_filename = str ''old.js'', cf_status = str ''removed'', cf_additions = 1,
                 cf_deletions = 0, cf_changes = 1, cf_patch = None,
                 cf_base_content = Some (str ''eA==''), cf_head_content = None\<rparr>])"
    by (simp add: getPrFiles_def getPrFiles_loop.simps static_world_def page_of_def
        file_named_def text_file_def collect_file_def getFileContent_def
        getFileContent_try_def str_def Let_def)
  with ends run show ?thesis by blast
qed

text \<open>
  C2. When GitHub serves a listing \<open>xs\<close> page by page, \<open>getPrFiles\<close> asks for
  pages of 100, for the pages \<open>1, \<dots>, length xs div 100 + 1\<close> in turn and no other:
  all of them but the last are full, the last one has fewer than 100 entries (maybe
  none). It returns one entry for each entry of the listing, in the listing's order.
  So a listing of 100, 150 or 0 entries takes 2, 2 or 1 calls and gives 100, 150 or 0
  entries.
\<close>

theorem getPrFiles_pagination:
  assumes "paged_listing w xs"
  shows "\<exists>es files.
     getPrFiles w owner repo prNumber baseSha headSha tr = Some (tr @ es, Inr files) \<and>
     filter is_ListFiles es =
       map (ListFiles owner repo prNumber 100) [1 ..< length xs div 100 + 2] \<and>
     (\<forall>p. 1 \<le> p \<and> p \<le> length xs div 100 \<longrightarrow> length (page_of xs 100 p) = 100) \<and>
     length (page_of xs 100 (length xs div 100 + 1)) < 100 \<and>
     list_all2 entry_matches xs files \<and>
     (length xs = 100 \<longrightarrow> length (filter is_ListFiles es) = 2 \<and> length files = 100) \<and>
     (length xs = 150 \<longrightarrow> length (filter is_ListFiles es) = 2 \<and> length files = 150) \<and>
     (length xs = 0 \<longrightarrow> length (filter is_ListFiles es) = 1 \<and> length files = 0)"
proof -
  have "(1::nat) \<le> 1" by simp
  from getPrFiles_loop_paged [OF assms this, of owner repo prNumber baseSha headSha "[]" tr]
  obtain es files where run:
    "getPrFiles w owner repo prNumber baseSha headSha tr = Some (tr @ es, Inr files)"
    "filter is_ListFiles es =
       map (ListFiles owner repo prNumber 100) [1 ..< 1 + length xs div 100 + 1]"
    "list_all2 entry_matches xs files"
    by (auto simp: getPrFiles_def)
  have calls: "length (filter is_ListFiles es) = length xs div 100 + 1"
    unfolding run(2) by simp
  have entries: "length files = length xs"
    using run(3) by (simp add: list_all2_lengthD)
  have pages: "[1 ..< 1 + length xs div 100 + 1] = [1 ..< length xs div 100 + 2]"
    by (rule arg_cong2 [where f = upt]) simp_all
  have "filter is_ListFiles es =
       map (ListFiles owner repo prNumber 100) [1 ..< length xs div 100 + 2]"
    using run(2) unfolding pages .
  moreover have "\<forall>p. 1 \<le> p \<and> p \<le> length xs div 100 \<longrightarrow> length (page_of xs 100 p) = 100"
    by (simp add: page_of_full)
  moreover have "length (page_of xs 100 (length xs div 100 + 1)) < 100"
    by (rule page_of_last)
  moreover have "length xs = 100 \<longrightarrow> length (filter is_ListFiles es) = 2 \<and> length files = 100"
    using calls entries by simp
  moreover have "length xs = 150 \<longrightarrow> length (filter is_ListFiles es) = 2 \<and> length files = 150"
    using calls entries by simp
  moreover have "length xs = 0 \<longrightarrow> length (filter is_ListFiles es) = 1 \<and> length files = 0"
    using calls entries by simp
  ultimately show ?thesis
    using run(1,3) by blast
qed

theorem getPrFiles_pagination_witness:
  "\<exists>es files.
     getPrFiles
       (static_world None (\<lambda>path ref. text_file ''eA=='')
          (\<lambda>per_page page.
             Inr (page_of (replicate 150 (file_named ''a.js'' ''modified'')) per_page page))
          (Inr Null) (Inr ()))
       (str ''octo'') (str ''repo'') 7 (str ''b0'') (str ''h1'') [] = Some (es, Inr files) \<and>
     length (filter is_ListFiles es) = 2 \<and> length files = 150"
proof -
  let ?xs = "replicate 150 (file_named ''a.js'' ''modified'')"
  let ?w = "static_world None (\<lambda>path ref. text_file ''eA=='')
          (\<lambda>per_page page. Inr (page_of ?xs per_page page)) (Inr Null) (Inr ())"
  have paged: "paged_listing ?w ?xs"
    by (simp add: paged_listing_def static_world_def)
  have len: "length ?xs = 150" by simp
  from getPrFiles_pagination [OF paged, of "str ''octo''" "str ''repo''" 7 "str ''b0''" "str ''h1''" "[]"]
  obtain es files where
    "getPrFiles ?w (str ''octo'') (str ''repo'') 7 (str ''b0'') (str ''h1'') [] =
       Some ([] @ es, Inr files)"
    "length ?xs = 150 \<longrightarrow> length (filter is_ListFiles es) = 2 \<and> length files = 150"
    by blast
  with len show ?thesis by auto
qed

text \<open>
  C8. A failure of the list-files call is not caught in \<open>getPrFiles\<close>: at any
  iteration of the loop, and so at the first one, the error is the result, and nothing
  is logged. A failure of a content lookup is absorbed: the file still gives its entry,
  whose base (or head) content is \<^verbatim>\<open>null\<close>, and the loop goes on with the files
  that remain, so a page always gives one entry for each of its files.
\<close>

theorem getPrFiles_error_policy:
  "(\<forall>err. pulls_listFiles w tr owner repo prNumber 100 page = Inl err \<longrightarrow>
      getPrFiles_loop w owner repo prNumber baseSha headSha page files tr =
        Some (tr @ [ListFiles owner repo prNumber 100 page], Inl err)) \<and>
   (\<forall>err. pulls_listFiles w tr owner repo prNumber 100 1 = Inl err \<longrightarrow>
      getPrFiles w owner repo prNumber baseSha headSha tr =
        Some (tr @ [ListFiles owner repo prNumber 100 1], Inl err)) \<and>
   (\<exists>es entry.
      collect_file w owner repo baseSha headSha f tr = (tr @ es, Inr entry) \<and>
      entry_matches f entry \<and>
      collect_page w owner repo baseSha headSha (f # fs) files tr =
        collect_page w owner repo baseSha headSha fs (files @ [entry]) (tr @ es) \<and>
      (\<forall>err. rf_status f \<noteq> str ''added'' \<and>
         repos_getContent w tr owner repo (rf_filename f) baseSha = Inl err \<longrightarrow>
         cf_base_content entry = None) \<and>
      (\<forall>err tr1 r. rf_status f \<noteq> str ''removed'' \<and>
         (if rf_status f = str ''added'' then (tr, Inr None)
          else getFileContent w owner repo (rf_filename f) baseSha tr) = (tr1, r) \<and>
         repos_getContent w tr1 owner repo (rf_filename f) headSha = Inl err \<longrightarrow>
         cf_head_content entry = None)) \<and>
   (\<exists>es new.
      collect_page w owner repo baseSha headSha data files tr = (tr @ es, Inr (files @ new)) \<and>
      list_all2 entry_matches data new)"
proof (intro conjI)
  show "\<forall>err. pulls_listFiles w tr owner repo prNumber 100 page = Inl err \<longrightarrow>
      getPrFiles_loop w owner repo prNumber baseSha headSha page files tr =
        Some (tr @ [ListFiles owner repo prNumber 100 page], Inl err)"
    by (simp add: getPrFiles_loop_listing_error)
  show "\<forall>err. pulls_listFiles w tr owner repo prNumber 100 1 = Inl err \<longrightarrow>
      getPrFiles w owner repo prNumber baseSha headSha tr =
        Some (tr @ [ListFiles owner repo prNumber 100 1], Inl err)"
    by (simp add: getPrFiles_def getPrFiles_loop_listing_error)
  show "\<exists>es new.
      collect_page w owner repo baseSha headSha data files tr = (tr @ es, Inr (files @ new)) \<and>
      list_all2 entry_matches data new"
    using collect_page_shape by blast
  obtain es entry where one:
    "collect_file w owner repo baseSha headSha f tr = (tr @ es, Inr entry)"
    "entry_matches f entry"
    using collect_file_shape by blast
  have "collect_page w owner repo baseSha headSha (f # fs) files tr =
        collect_page w owner repo baseSha headSha fs (files @ [entry]) (tr @ es)"
    by (simp add: one(1))
  moreover have "\<forall>err. rf_status f \<noteq> str ''added'' \<and>
         repos_getContent w tr owner repo (rf_filename f) baseSha = Inl err \<longrightarrow>
         cf_base_content entry = None"
    using collect_file_base_error [OF _ _ one(1)] by blast
  moreover have "\<forall>err tr1 r. rf_status f \<noteq> str ''removed'' \<and>
         (if rf_status f = str ''added'' then (tr, Inr None)
          else getFileContent w owner repo (rf_filename f) baseSha tr) = (tr1, r) \<and>
         repos_getContent w tr1 owner repo (rf_filename f) headSha = Inl err \<longrightarrow>
         cf_head_content entry = None"
    using collect_file_head_error [OF _ _ _ one(1)] by blast
  ultimately show "\<exists>es entry.
      collect_file w owner repo baseSha headSha f tr = (tr @ es, Inr entry) \<and>
      entry_matches f entry \<and>
      collect_page w owner repo baseSha headSha (f # fs) files tr =
        collect_page w owner repo baseSha headSha fs (files @ [entry]) (tr @ es) \<and>
      (\<forall>err. rf_status f \<noteq> str ''added'' \<and>
         repos_getContent w tr owner repo (rf_filename f) baseSha = Inl err \<longrightarrow>
         cf_base_content entry = None) \<and>
      (\<forall>err tr1 r. rf_status f \<noteq> str ''removed'' \<and>
         (if rf_status f = str ''added'' then (tr, Inr None)
          else getFileContent w owner repo (rf_filename f) baseSha tr) = (tr1, r) \<and>
         repos_getContent w tr1 owner repo (rf_filename f) headSha = Inl err \<longrightarrow>
         cf_head_content entry = None)"
    using one by blast
qed

theorem getPrFiles_error_policy_witness:
  "getPrFiles
     (static_world None (\<lambda>path ref. text_file ''eA=='')
        (\<lambda>per_page page. Inl (RequestError 500)) (Inr Null) (Inr ()))
     (str ''octo'') (str ''repo'') 7 (str ''b0'') (str ''h1'') [] =
     Some ([ListFiles (str ''octo'') (str ''repo'') 7 100 1], Inl (RequestError 500)) \<and>
   (\<exists>es entry.
      collect_file
        (static_world None (\<lambda>path ref. Inl (RequestError 404)) (\<lambda>per_page page. Inr [])
           (Inr Null) (Inr ()))
        (str ''octo'') (str ''repo'') (str ''b0'') (str ''h1'')
        (file_named ''a.js'' ''modified'') [] = (es, Inr entry) \<and>
      cf_base_content entry = None \<and> cf_head_content entry = None \<and>
      collect_page
        (static_world None (\<lambda>path ref. Inl (RequestError 404)) (\<lambda>per_page page. Inr [])
           (Inr Null) (Inr ()))
        (str ''octo'') (str ''repo'') (str ''b0'') (str ''h1'')
        [file_named ''a.js'' ''modified'', file_named ''b.js'' ''modified''] [] [] =
      collect_page
        (static_world None (\<lambda>path ref. Inl (RequestError 404)) (\<lambda>per_page page. Inr [])
           (Inr Null) (Inr ()))
        (str ''octo'') (str ''repo'') (str ''b0'') (str ''h1'')
        [file_named ''b.js'' ''modified''] [entry] es)"
proof
  let ?w1 = "static_world None (\<lambda>path ref. text_file ''eA=='')
        (\<lambda>per_page page. Inl (RequestError 500)) (Inr Null) (Inr ())"
  have "pulls_listFiles ?w1 [] (str ''octo'') (str ''repo'') 7 100 1 = Inl (RequestError 500)"
    by (simp add: static_world_def)
  with getPrFiles_error_policy
         [where w = ?w1 and tr = "[]" and owner = "str ''octo''" and repo = "str ''repo''"
            and prNumber = 7 and baseSha = "str ''b0''" and headSha = "str ''h1''"]
  show "getPrFiles ?w1 (str ''octo'') (str ''repo'') 7 (str ''b0'') (str ''h1'') [] =
     Some ([ListFiles (str ''octo'') (str ''repo'') 7 100 1], Inl (RequestError 500))"
    by simp
next
  let ?w2 = "static_world None (\<lambda>path ref. Inl (RequestError 404)) (\<lambda>per_page page. Inr [])
           (Inr Null) (Inr ())"
  let ?f = "file_named ''a.js'' ''modified''"
  let ?g = "file_named ''b.js'' ''modified''"
  have status: "rf_status ?f \<noteq> str ''added''" "rf_status ?f \<noteq> str ''removed''"
    by (simp_all add: file_named_def str_def)
  have failing: "repos_getContent ?w2 t (str ''octo'') (str ''repo'') (rf_filename ?f) ref =
      Inl (RequestError 404)" for t ref
    by (simp add: static_world_def)
  obtain tr1 r where base:
    "(if rf_status ?f = str ''added'' then ([], Inr None)
      else getFileContent ?w2 (str ''octo'') (str ''repo'') (rf_filename ?f) (str ''b0'') []) =
       (tr1, r)"
    by fastforce
  from getPrFiles_error_policy
         [where w = ?w2 and tr = "[]" and owner = "str ''octo''" and repo = "str ''repo''"
            and baseSha = "str ''b0''" and headSha = "str ''h1''" and f = ?f and fs = "[?g]"
            and files = "[]"]
  obtain es entry where run:
    "collect_file ?w2 (str ''octo'') (str ''repo'') (str ''b0'') (str ''h1'') ?f [] =
       ([] @ es, Inr entry)"
    "collect_page ?w2 (str ''octo'') (str ''repo'') (str ''b0'') (str ''h1'') (?f # [?g]) [] [] =
       collect_page ?w2 (str ''octo'') (str ''repo'') (str ''b0'') (str ''h1'') [?g]
         ([] @ [entry]) ([] @ es)"
    "\<forall>err. rf_status ?f \<noteq> str ''added'' \<and>
       repos_getContent ?w2 [] (str ''octo'') (str ''repo'') (rf_filename ?f) (str ''b0'') = Inl err
       \<longrightarrow> cf_base_content entry = None"
    "\<forall>err tr1 r. rf_status ?f \<noteq> str ''removed'' \<and>
       (if rf_status ?f = str ''added'' then ([], Inr None)
        else getFileContent ?w2 (str ''octo'') (str ''repo'') (rf_filename ?f) (str ''b0'') []) =
         (tr1, r) \<and>
       repos_getContent ?w2 tr1 (str ''octo'') (str ''repo'') (rf_filename ?f) (str ''h1'') = Inl err
       \<longrightarrow> cf_head_content entry = None"
    by blast
  have "cf_base_content entry = None"
    using run(3) status(1) failing by blast
  moreover have "cf_head_content entry = None"
    using run(4) status(2) base failing by blast
  ultimately show "\<exists>es entry.
      collect_file ?w2 (str ''octo'') (str ''repo'') (str ''b0'') (str ''h1'') ?f [] =
        (es, Inr entry) \<and>
      cf_base_content entry = None \<and> cf_head_content entry = None \<and>
      collect_page ?w2 (str ''octo'') (str ''repo'') (str ''b0'') (str ''h1'') [?f, ?g] [] [] =
      collect_page ?w2 (str ''octo'') (str ''repo'') (str ''b0'') (str ''h1'') [?g] [entry] es"
    using run(1,2) by auto
qed

text \<open>
  C10. For each listing entry the content requests are made under the entry's
  \<open>filename\<close>: one at \<open>baseSha\<close> unless the entry is added, then one at \<open>headSha\<close>
  unless it is removed, and no other; so both for a renamed entry. The entry's previous
  filename has no influence on what is done.
\<close>

theorem collect_file_uses_filename:
  "(\<exists>es entry.
      collect_file w owner repo baseSha headSha f tr = (tr @ es, Inr entry) \<and>
      filter is_GetContent es =
        (if rf_status f = str ''added'' then []
         else [GetContent owner repo (rf_filename f) baseSha]) @
        (if rf_status f = str ''removed'' then []
         else [GetContent owner repo (rf_filename f) headSha]) \<and>
      (rf_status f = str ''renamed'' \<longrightarrow>
         filter is_GetContent es =
           [GetContent owner repo (rf_filename f) baseSha,
            GetContent owner repo (rf_filename f) headSha])) \<and>
   collect_file w owner repo baseSha headSha (f\<lparr>rf_previous_filename := previous\<rparr>) tr =
     collect_file w owner repo baseSha headSha f tr"
proof
  obtain es entry where run:
    "collect_file w owner repo baseSha headSha f tr = (tr @ es, Inr entry)"
    "filter is_GetContent es =
        (if rf_status f = str ''added'' then []
         else [GetContent owner repo (rf_filename f) baseSha]) @
        (if rf_status f = str ''removed'' then []
         else [GetContent owner repo (rf_filename f) headSha])"
    using collect_file_requests by blast
  have "rf_status f = str ''renamed'' \<longrightarrow>
         filter is_GetContent es =
           [GetContent owner repo (rf_filename f) baseSha,
            GetContent owner repo (rf_filename f) headSha]"
    using run(2) by (simp add: str_def)
  with run show "\<exists>es entry.
      collect_file w owner repo baseSha headSha f tr = (tr @ es, Inr entry) \<and>
      filter is_GetContent es =
        (if rf_status f = str ''added'' then []
         else [GetContent owner repo (rf_filename f) baseSha]) @
        (if rf_status f = str ''removed'' then []
         else [GetContent owner repo (rf_filename f) headSha]) \<and>
      (rf_status f = str ''renamed'' \<longrightarrow>
         filter is_GetContent es =
           [GetContent owner repo (rf_filename f) baseSha,
            GetContent owner repo (rf_filename f) headSha])"
    by blast
  show "collect_file w owner repo baseSha headSha (f\<lparr>rf_previous_filename := previous\<rparr>) tr =
     collect_file w owner repo baseSha headSha f tr"
    by (simp add: collect_file_def)
qed

theorem collect_file_uses_filename_witness:
  "\<exists>es entry.
     collect_file
       (static_world None (\<lambda>path ref. text_file ''eA=='') (\<lambda>per_page page. Inr [])
          (Inr Null) (Inr ()))
       (str ''octo'') (str ''repo'') (str ''b0'') (str ''h1'')
       ((file_named ''new/name.js'' ''renamed'')\<lparr>rf_previous_filename := Some (str ''old/name.js'')\<rparr>)
       [] = (es, Inr entry) \<and>
     filter is_GetContent es =
       [GetContent (str ''octo'') (str ''repo'') (str ''new/name.js'') (str ''b0''),
        GetContent (str ''octo'') (str ''repo'') (str ''new/name.js'') (str ''h1'')]"
proof -
  let ?w = "static_world None (\<lambda>path ref. text_file ''eA=='') (\<lambda>per_page page. Inr [])
          (Inr Null) (Inr ())"
  let ?f = "(file_named ''new/name.js'' ''renamed'')\<lparr>rf_previous_filename := Some (str ''old/name.js'')\<rparr>"
  have renamed: "rf_status ?f = str ''renamed''" and name: "rf_filename ?f = str ''new/name.js''"
    by (simp_all add: file_named_def)
  from collect_file_uses_filename
         [of ?w "str ''octo''" "str ''repo''" "str ''b0''" "str ''h1''" ?f "[]"]
  obtain es entry where
    "collect_file ?w (str ''octo'') (str ''repo'') (str ''b0'') (str ''h1'') ?f [] =
       ([] @ es, Inr entry)"
    "rf_status ?f = str ''renamed'' \<longrightarrow>
       filter is_GetContent es =
         [GetContent (str ''octo'') (str ''repo'') (rf_filename ?f) (str ''b0''),
          GetContent (str ''octo'') (str ''repo'') (rf_filename ?f) (str ''h1'')]"
    by blast
  with renamed name show ?thesis by auto
qed

text \<open>
  C3. Neither handler ever raises: whenever a handler returns, it returns normally,
  and it does return when the listing ends. An error thrown in the \<^verbatim>\<open>try\<close> block
  is logged by the \<^verbatim>\<open>catch\<close> and dropped; so it is with the error of the file
  listing that \<open>getPrFiles\<close> lets through, and with a failure to post the comment
  or the reply.
\<close>

theorem handlers_never_raise:
  "(\<forall>tr' res. review_submitted w ctx tr = Some (tr', res) \<longrightarrow> res = Inr ()) \<and>
   (\<forall>tr' res. review_comment_created w ctx tr = Some (tr', res) \<longrightarrow> res = Inr ()) \<and>
   (listing_ends w k \<longrightarrow>
      (\<exists>tr'. review_submitted w ctx tr = Some (tr', Inr ())) \<and>
      (\<exists>tr'. review_comment_created w ctx tr = Some (tr', Inr ()))) \<and>
   (\<forall>tr1 err. review_submitted_try w ctx tr = Some (tr1, Inl err) \<longrightarrow>
      review_submitted w ctx tr =
        Some (tr1 @ [Log LogError [FieldErr err]
                       ''Error while handling pull_request_review.submitted''], Inr ())) \<and>
   (\<forall>tr1 err. review_comment_created_try w ctx tr = Some (tr1, Inl err) \<longrightarrow>
      review_comment_created w ctx tr =
        Some (tr1 @ [Log LogError [FieldErr err]
                       ''Error while handling pull_request_review_comment.created''], Inr ())) \<and>
   (\<forall>rv tr1 err.
      \<not> isFromBot ctx \<and> payload_review ctx = Some rv \<and>
      js_trim (or_empty (review_body rv)) \<noteq> [] \<and>
      getPrFiles_of w ctx tr = Some (tr1, Inl err) \<longrightarrow>
      review_submitted w ctx tr =
        Some (tr1 @ [Log LogError [FieldErr err]
                       ''Error while handling pull_request_review.submitted''], Inr ())) \<and>
   (\<forall>cm tr1 err.
      \<not> isFromBot ctx \<and> payload_comment ctx = Some cm \<and>
      js_trim (or_empty (comment_body cm)) \<noteq> [] \<and>
      getPrFiles_of w ctx tr = Some (tr1, Inl err) \<longrightarrow>
      review_comment_created w ctx tr =
        Some (tr1 @ [Log LogError [FieldErr err]
                       ''Error while handling pull_request_review_comment.created''], Inr ())) \<and>
   (\<forall>rv tr1 files tr2 body err.
      \<not> isFromBot ctx \<and> payload_review ctx = Some rv \<and>
      js_trim (or_empty (review_body rv)) \<noteq> [] \<and>
      getPrFiles_of w ctx tr = Some (tr1, Inr files) \<and>
      callBackend w (review_payload ctx rv files) tr1 = (tr2, Inr (Some body)) \<and> body \<noteq> [] \<and>
      issues_createComment w tr2 (owner_login (repo_owner (payload_repository ctx)))
        (repo_name (payload_repository ctx)) (pr_number (payload_pull_request ctx)) body =
        Inl err \<longrightarrow>
      review_submitted w ctx tr =
        Some (tr2 @ [CreateComment (owner_login (repo_owner (payload_repository ctx)))
                       (repo_name (payload_repository ctx))
                       (pr_number (payload_pull_request ctx)) body,
                     Log LogError [FieldErr err]
                       ''Error while handling pull_request_review.submitted''], Inr ())) \<and>
   (\<forall>cm tr1 files tr2 body err.
      \<not> isFromBot ctx \<and> payload_comment ctx = Some cm \<and>
      js_trim (or_empty (comment_body cm)) \<noteq> [] \<and>
      getPrFiles_of w ctx tr = Some (tr1, Inr files) \<and>
      callBackend w (comment_payload ctx cm files) tr1 = (tr2, Inr (Some body)) \<and> body \<noteq> [] \<and>
      pulls_createReplyForReviewComment w tr2
        (owner_login (repo_owner (payload_repository ctx)))
        (repo_name (payload_repository ctx)) (pr_number (payload_pull_request ctx))
        (comment_id cm) body = Inl err \<longrightarrow>
      review_comment_created w ctx tr =
        Some (tr2 @ [CreateReply (owner_login (repo_owner (payload_repository ctx)))
                       (repo_name (payload_repository ctx))
                       (pr_number (payload_pull_request ctx)) (comment_id cm) body,
                     Log LogError [FieldErr err]
                       ''Error while handling pull_request_review_comment.created''], Inr ()))"
proof (intro conjI impI allI)
  fix tr' res
  assume "review_submitted w ctx tr = Some (tr', res)"
  then show "res = Inr ()" by (rule review_submitted_never_raises)
next
  fix tr' res
  assume "review_comment_created w ctx tr = Some (tr', res)"
  then show "res = Inr ()" by (rule review_comment_created_never_raises)
next
  assume "listing_ends w k"
  then show "\<exists>tr'. review_submitted w ctx tr = Some (tr', Inr ())"
    by (rule review_submitted_completes)
next
  assume "listing_ends w k"
  then show "\<exists>tr'. review_comment_created w ctx tr = Some (tr', Inr ())"
    by (rule review_comment_created_completes)
next
  fix tr1 err
  assume "review_submitted_try w ctx tr = Some (tr1, Inl err)"
  then show "review_submitted w ctx tr =
        Some (tr1 @ [Log LogError [FieldErr err]
                       ''Error while handling pull_request_review.submitted''], Inr ())"
    by (rule review_submitted_caught)
next
  fix tr1 err
  assume "review_comment_created_try w ctx tr = Some (tr1, Inl err)"
  then show "review_comment_created w ctx tr =
        Some (tr1 @ [Log LogError [FieldErr err]
                       ''Error while handling pull_request_review_comment.created''], Inr ())"
    by (rule review_comment_created_caught)
next
  fix rv tr1 err
  assume "\<not> isFromBot ctx \<and> payload_review ctx = Some rv \<and>
      js_trim (or_empty (review_body rv)) \<noteq> [] \<and>
      getPrFiles_of w ctx tr = Some (tr1, Inl err)"
  then have "review_submitted_try w ctx tr = Some (tr1, Inl err)"
    by (simp add: review_submitted_try_listing_error)
  then show "review_submitted w ctx tr =
        Some (tr1 @ [Log LogError [FieldErr err]
                       ''Error while handling pull_request_review.submitted''], Inr ())"
    by (rule review_submitted_caught)
next
  fix cm tr1 err
  assume "\<not> isFromBot ctx \<and> payload_comment ctx = Some cm \<and>
      js_trim (or_empty (comment_body cm)) \<noteq> [] \<and>
      getPrFiles_of w ctx tr = Some (tr1, Inl err)"
  then have "review_comment_created_try w ctx tr = Some (tr1, Inl err)"
    by (simp add: review_comment_created_try_listing_error)
  then show "review_comment_created w ctx tr =
        Some (tr1 @ [Log LogError [FieldErr err]
                       ''Error while handling pull_request_review_comment.created''], Inr ())"
    by (rule review_comment_created_caught)
next
  fix rv tr1 files tr2 body err
  let ?owner = "owner_login (repo_owner (payload_repository ctx))"
  let ?repo = "repo_name (payload_repository ctx)"
  let ?n = "pr_number (payload_pull_request ctx)"
  assume a: "\<not> isFromBot ctx \<and> payload_review ctx = Some rv \<and>
      js_trim (or_empty (review_body rv)) \<noteq> [] \<and>
      getPrFiles_of w ctx tr = Some (tr1, Inr files) \<and>
      callBackend w (review_payload ctx rv files) tr1 = (tr2, Inr (Some body)) \<and> body \<noteq> [] \<and>
      issues_createComment w tr2 ?owner ?repo ?n body = Inl err"
  have "review_submitted_try w ctx tr =
      Some (tr2 @ [CreateComment ?owner ?repo ?n body], Inl err)"
    using a review_submitted_try_posted [of ctx rv w tr tr1 files tr2 body] by simp
  from review_submitted_caught [OF this]
  show "review_submitted w ctx tr =
        Some (tr2 @ [CreateComment ?owner ?repo ?n body,
                     Log LogError [FieldErr err]
                       ''Error while handling pull_request_review.submitted''], Inr ())"
    by simp
next
  fix cm tr1 files tr2 body err
  let ?owner = "owner_login (repo_owner (payload_repository ctx))"
  let ?repo = "repo_name (payload_repository ctx)"
  let ?n = "pr_number (payload_pull_request ctx)"
  assume a: "\<not> isFromBot ctx \<and> payload_comment ctx = Some cm \<and>
      js_trim (or_empty (comment_body cm)) \<noteq> [] \<and>
      getPrFiles_of w ctx tr = Some (tr1, Inr files) \<and>
      callBackend w (comment_payload ctx cm files) tr1 = (tr2, Inr (Some body)) \<and> body \<noteq> [] \<and>
      pulls_createReplyForReviewComment w tr2 ?owner ?repo ?n (comment_id cm) body = Inl err"
  have "review_comment_created_try w ctx tr =
      Some (tr2 @ [CreateReply ?owner ?repo ?n (comment_id cm) body], Inl err)"
    using a review_comment_created_try_posted [of ctx cm w tr tr1 files tr2 body] by simp
  from review_comment_created_caught [OF this]
  show "review_comment_created w ctx tr =
        Some (tr2 @ [CreateReply ?owner ?repo ?n (comment_id cm) body,
                     Log LogError [FieldErr err]
                       ''Error while handling pull_request_review_comment.created''], Inr ())"
    by simp
qed

theorem handlers_never_raise_witness:
  "review_submitted
     (static_world (Some (str ''http://backend'')) (\<lambda>path ref. text_file ''eA=='')
        (\<lambda>per_page page. Inl (RequestError 500)) (Inr Null) (Inr ()))
     (review_event alice (Some (str ''Looks good''))) [] =
     Some ([ListFiles (str ''octo'') (str ''repo'') 7 100 1,
            Log LogError [FieldErr (RequestError 500)]
              ''Error while handling pull_request_review.submitted''], Inr ()) \<and>
   listing_ends
     (static_world (Some (str ''http://backend'')) (\<lambda>path ref. text_file ''eA=='')
        (\<lambda>per_page page. Inl (RequestError 500)) (Inr Null) (Inr ())) 1 \<and>
   (\<exists>tr2. review_submitted
       (static_world (Some (str ''http://backend'')) (\<lambda>path ref. text_file ''eA=='')
          (\<lambda>per_page page. Inr [])
          (Inr (Obj [(str ''comment'', Str (str ''Thanks!''))])) (Inl (RequestError 403)))
       (review_event alice (Some (str ''Looks good''))) [] =
       Some (tr2 @ [CreateComment (str ''octo'') (str ''repo'') 7 (str ''Thanks!''),
                    Log LogError [FieldErr (RequestError 403)]
                      ''Error while handling pull_request_review.submitted''], Inr ()))"
proof (intro conjI)
  let ?ctx = "review_event alice (Some (str ''Looks good''))"
  let ?rv = "the (payload_review ?ctx)"
  let ?url = "str ''http://backend''"
  let ?tr1 = "[ListFiles (str ''octo'') (str ''repo'') 7 100 1]"
  let ?wa = "static_world (Some ?url) (\<lambda>path ref. text_file ''eA=='')
        (\<lambda>per_page page. Inl (RequestError 500)) (Inr Null) (Inr ())"
  let ?wb = "static_world (Some ?url) (\<lambda>path ref. text_file ''eA=='')
          (\<lambda>per_page page. Inr [])
          (Inr (Obj [(str ''comment'', Str (str ''Thanks!''))])) (Inl (RequestError 403))"
  have notbot: "\<not> isFromBot ?ctx"
    by (simp add: isFromBot_def review_event_def alice_def str_def endsWith_def)
  have rv: "payload_review ?ctx = Some ?rv"
    by (simp add: review_event_def)
  have body: "js_trim (or_empty (review_body ?rv)) \<noteq> []"
    by (simp add: review_event_def or_empty_def js_trim_def str_def is_js_whitespace_def)
  have coords: "owner_login (repo_owner (payload_repository ?ctx)) = str ''octo''"
    "repo_name (payload_repository ?ctx) = str ''repo''"
    "pr_number (payload_pull_request ?ctx) = 7"
    by (simp_all add: review_event_def example_pull_request_def example_repository_def)
  show ends: "listing_ends ?wa 1"
    by (simp add: listing_ends_def short_page_def static_world_def)
  have failed: "getPrFiles_of ?wa ?ctx [] = Some (?tr1, Inl (RequestError 500))"
    by (simp add: getPrFiles_def getPrFiles_loop.simps static_world_def review_event_def
        example_pull_request_def example_repository_def)
  from handlers_never_raise [of ?wa ?ctx "[]" 1] notbot rv body failed
  have "review_submitted ?wa ?ctx [] =
     Some (?tr1 @ [Log LogError [FieldErr (RequestError 500)]
                     ''Error while handling pull_request_review.submitted''], Inr ())"
    by blast
  then show "review_submitted ?wa ?ctx [] =
     Some ([ListFiles (str ''octo'') (str ''repo'') 7 100 1,
            Log LogError [FieldErr (RequestError 500)]
              ''Error while handling pull_request_review.submitted''], Inr ())"
    by simp
  let ?p = "review_payload ?ctx ?rv []"
  let ?tr2 = "?tr1 @ [Log LogInfo [FieldPayload ?p] ''Sending payload to backend'',
                      AxiosPost ?url ?p]"
  have files: "getPrFiles_of ?wb ?ctx [] = Some (?tr1, Inr [])"
    by (simp add: getPrFiles_def getPrFiles_loop.simps static_world_def review_event_def
        example_pull_request_def example_repository_def)
  have url: "env_BACKEND_URL ?wb = Some ?url" "?url \<noteq> []"
    by (simp_all add: static_world_def str_def)
  have post: "axios_post ?wb t ?url ?p = Inr (Obj [(str ''comment'', Str (str ''Thanks!''))])"
    for t
    by (simp add: static_world_def)
  have field: "get_prop (Obj [(str ''comment'', Str (str ''Thanks!''))]) (str ''comment'') =
      Inr (Str (str ''Thanks!''))"
    by simp
  have thanks: "\<exists>c \<in> set (str ''Thanks!''). \<not> is_js_whitespace c"
    by (simp add: str_def is_js_whitespace_def)
  have backend: "callBackend ?wb ?p ?tr1 = (?tr2, Inr (Some (str ''Thanks!'')))"
    by (rule callBackend_comment [OF url post field thanks])
  have nonempty: "str ''Thanks!'' \<noteq> []"
    by (simp add: str_def)
  have rejected: "issues_createComment ?wb ?tr2
      (owner_login (repo_owner (payload_repository ?ctx)))
      (repo_name (payload_repository ?ctx)) (pr_number (payload_pull_request ?ctx))
      (str ''Thanks!'') = Inl (RequestError 403)"
    by (simp add: static_world_def)
  from handlers_never_raise [of ?wb ?ctx "[]" 1] notbot rv body files backend nonempty rejected
  have "review_submitted ?wb ?ctx [] =
        Some (?tr2 @ [CreateComment (owner_login (repo_owner (payload_repository ?ctx)))
                       (repo_name (payload_repository ?ctx))
                       (pr_number (payload_pull_request ?ctx)) (str ''Thanks!''),
                     Log LogError [FieldErr (RequestError 403)]
                       ''Error while handling pull_request_review.submitted''], Inr ())"
    by blast
  then show "\<exists>tr2. review_submitted ?wb ?ctx [] =
       Some (tr2 @ [CreateComment (str ''octo'') (str ''repo'') 7 (str ''Thanks!''),
                    Log LogError [FieldErr (RequestError 403)]
                      ''Error while handling pull_request_review.submitted''], Inr ())"
    unfolding coords by blast
qed

text \<open>
  C4. \<open>callBackend\<close> never throws. With the backend URL set, it returns \<^verbatim>\<open>null\<close>
  when the request fails, when the response has no string under \<^verbatim>\<open>comment\<close> (the
  field is missing, or the response is of another shape), and when that string is
  empty or whitespace only; otherwise it returns that string as it is, untrimmed. When
  it returns \<^verbatim>\<open>null\<close>, the handler stops where \<open>callBackend\<close> left it: it posts no
  comment and no reply.
\<close>

theorem callBackend_contract:
  "(\<exists>tr' r. callBackend w p tr = (tr', Inr r)) \<and>
   (env_BACKEND_URL w = Some url \<and> url \<noteq> [] \<longrightarrow>
      (\<forall>err. axios_post w (tr @ [Log LogInfo [FieldPayload p] ''Sending payload to backend''])
                url p = Inl err \<longrightarrow>
         snd (callBackend w p tr) = Inr None) \<and>
      (\<forall>data. axios_post w (tr @ [Log LogInfo [FieldPayload p] ''Sending payload to backend''])
                 url p = Inr data \<and>
         (\<forall>s. get_prop data (str ''comment'') \<noteq> Inr (Str s)) \<longrightarrow>
         snd (callBackend w p tr) = Inr None) \<and>
      (\<forall>data s. axios_post w (tr @ [Log LogInfo [FieldPayload p] ''Sending payload to backend''])
                   url p = Inr data \<and>
         get_prop data (str ''comment'') = Inr (Str s) \<and>
         (\<forall>c \<in> set s. is_js_whitespace c) \<longrightarrow>
         snd (callBackend w p tr) = Inr None) \<and>
      (\<forall>data s. axios_post w (tr @ [Log LogInfo [FieldPayload p] ''Sending payload to backend''])
                   url p = Inr data \<and>
         get_prop data (str ''comment'') = Inr (Str s) \<and>
         (\<exists>c \<in> set s. \<not> is_js_whitespace c) \<longrightarrow>
         snd (callBackend w p tr) = Inr (Some s))) \<and>
   (\<forall>rv tr1 files tr2.
      \<not> isFromBot ctx \<and> payload_review ctx = Some rv \<and>
      js_trim (or_empty (review_body rv)) \<noteq> [] \<and>
      getPrFiles_of w ctx tr = Some (tr1, Inr files) \<and>
      callBackend w (review_payload ctx rv files) tr1 = (tr2, Inr None) \<longrightarrow>
      (\<exists>es. review_submitted w ctx tr = Some (tr @ es, Inr ()) \<and> tr2 = tr @ es \<and>
            filter is_write es = [])) \<and>
   (\<forall>cm tr1 files tr2.
      \<not> isFromBot ctx \<and> payload_comment ctx = Some cm \<and>
      js_trim (or_empty (comment_body cm)) \<noteq> [] \<and>
      getPrFiles_of w ctx tr = Some (tr1, Inr files) \<and>
      callBackend w (comment_payload ctx cm files) tr1 = (tr2, Inr None) \<longrightarrow>
      (\<exists>es. review_comment_created w ctx tr = Some (tr @ es, Inr ()) \<and> tr2 = tr @ es \<and>
            filter is_write es = []))"
proof (intro conjI impI allI)
  show "\<exists>tr' r. callBackend w p tr = (tr', Inr r)"
    using callBackend_shape by blast
next
  fix err
  assume "env_BACKEND_URL w = Some url \<and> url \<noteq> []"
    and "axios_post w (tr @ [Log LogInfo [FieldPayload p] ''Sending payload to backend''])
           url p = Inl err"
  then show "snd (callBackend w p tr) = Inr None"
    by (simp add: callBackend_transport_error)
next
  fix data
  assume "env_BACKEND_URL w = Some url \<and> url \<noteq> []"
    and "axios_post w (tr @ [Log LogInfo [FieldPayload p] ''Sending payload to backend''])
           url p = Inr data \<and>
         (\<forall>s. get_prop data (str ''comment'') \<noteq> Inr (Str s))"
  then show "snd (callBackend w p tr) = Inr None"
    using callBackend_not_a_string [of w url tr p data] by blast
next
  fix data s
  assume "env_BACKEND_URL w = Some url \<and> url \<noteq> []"
    and "axios_post w (tr @ [Log LogInfo [FieldPayload p] ''Sending payload to backend''])
           url p = Inr data \<and>
         get_prop data (str ''comment'') = Inr (Str s) \<and>
         (\<forall>c \<in> set s. is_js_whitespace c)"
  then show "snd (callBackend w p tr) = Inr None"
    using callBackend_blank [of w url tr p data s] by simp
next
  fix data s
  assume "env_BACKEND_URL w = Some url \<and> url \<noteq> []"
    and "axios_post w (tr @ [Log LogInfo [FieldPayload p] ''Sending payload to backend''])
           url p = Inr data \<and>
         get_prop data (str ''comment'') = Inr (Str s) \<and>
         (\<exists>c \<in> set s. \<not> is_js_whitespace c)"
  then show "snd (callBackend w p tr) = Inr (Some s)"
    using callBackend_comment [of w url tr p data s] by simp
next
  fix rv tr1 files tr2
  assume a: "\<not> isFromBot ctx \<and> payload_review ctx = Some rv \<and>
      js_trim (or_empty (review_body rv)) \<noteq> [] \<and>
      getPrFiles_of w ctx tr = Some (tr1, Inr files) \<and>
      callBackend w (review_payload ctx rv files) tr1 = (tr2, Inr None)"
  then obtain es1 where es1: "tr1 = tr @ es1" "list_all (\<lambda>e. \<not> is_write e) es1"
    using getPrFiles_no_write by blast
  obtain es2 r where "callBackend w (review_payload ctx rv files) tr1 = (tr1 @ es2, Inr r)"
    "list_all (\<lambda>e. \<not> is_write e) es2"
    using callBackend_shape by blast
  with a have es2: "tr2 = tr1 @ es2" "list_all (\<lambda>e. \<not> is_write e) es2"
    by simp_all
  from a have "review_submitted_try w ctx tr = Some (tr2, Inr ())"
    by (simp add: review_submitted_try_no_comment)
  then have "review_submitted w ctx tr = Some (tr2, Inr ())"
    by (rule review_submitted_returned)
  moreover have "tr2 = tr @ (es1 @ es2)"
    using es1(1) es2(1) by simp
  moreover have "filter is_write (es1 @ es2) = []"
    using es1(2) es2(2) by (simp add: filter_empty_conv list_all_iff)
  ultimately show "\<exists>es. review_submitted w ctx tr = Some (tr @ es, Inr ()) \<and> tr2 = tr @ es \<and>
            filter is_write es = []"
    by blast
next
  fix cm tr1 files tr2
  assume a: "\<not> isFromBot ctx \<and> payload_comment ctx = Some cm \<and>
      js_trim (or_empty (comment_body cm)) \<noteq> [] \<and>
      getPrFiles_of w ctx tr = Some (tr1, Inr files) \<and>
      callBackend w (comment_payload ctx cm files) tr1 = (tr2, Inr None)"
  then obtain es1 where es1: "tr1 = tr @ es1" "list_all (\<lambda>e. \<not> is_write e) es1"
    using getPrFiles_no_write by blast
  obtain es2 r where "callBackend w (comment_payload ctx cm files) tr1 = (tr1 @ es2, Inr r)"
    "list_all (\<lambda>e. \<not> is_write e) es2"
    using callBackend_shape by blast
  with a have es2: "tr2 = tr1 @ es2" "list_all (\<lambda>e. \<not> is_write e) es2"
    by simp_all
  from a have "review_comment_created_try w ctx tr = Some (tr2, Inr ())"
    by (simp add: review_comment_created_try_no_comment)
  then have "review_comment_created w ctx tr = Some (tr2, Inr ())"
    by (rule review_comment_created_returned)
  moreover have "tr2 = tr @ (es1 @ es2)"
    using es1(1) es2(1) by simp
  moreover have "filter is_write (es1 @ es2) = []"
    using es1(2) es2(2) by (simp add: filter_empty_conv list_all_iff)
  ultimately show "\<exists>es. review_comment_created w ctx tr = Some (tr @ es, Inr ()) \<and>
            tr2 = tr @ es \<and> filter is_write es = []"
    by blast
qed

theorem callBackend_contract_witness:
  "snd (callBackend
          (static_world (Some (str ''http://backend'')) (\<lambda>path ref. text_file ''eA=='')
             (\<lambda>per_page page. Inr []) (Inr (Obj [(str ''comment'', Str (str ''  ''))])) (Inr ()))
          (comment_payload (comment_event alice (Some (str ''Why?'')))
             (the (payload_comment (comment_event alice (Some (str ''Why?''))))) [])
          []) = Inr None \<and>
   snd (callBackend
          (static_world (Some (str ''http://backend'')) (\<lambda>path ref. text_file ''eA=='')
             (\<lambda>per_page page. Inr []) (Inr (Obj [(str ''comment'', Str (str '' Thanks! ''))]))
             (Inr ()))
          (comment_payload (comment_event alice (Some (str ''Why?'')))
             (the (payload_comment (comment_event alice (Some (str ''Why?''))))) [])
          []) = Inr (Some (str '' Thanks! '')) \<and>
   (\<exists>es. review_comment_created
           (static_world (Some (str ''http://backend'')) (\<lambda>path ref. text_file ''eA=='')
              (\<lambda>per_page page. Inr []) (Inr (Obj [(str ''comment'', Str [])])) (Inr ()))
           (comment_event alice (Some (str ''Why?''))) [] = Some (es, Inr ()) \<and>
         filter is_write es = [])"
proof (intro conjI)
  let ?ctx = "comment_event alice (Some (str ''Why?''))"
  let ?cm = "the (payload_comment ?ctx)"
  let ?p = "comment_payload ?ctx ?cm []"
  let ?url = "str ''http://backend''"
  let ?w = "\<lambda>body. static_world (Some ?url) (\<lambda>path ref. text_file ''eA=='')
             (\<lambda>per_page page. Inr []) (Inr (Obj [(str ''comment'', Str body)])) (Inr ())"
  have url: "env_BACKEND_URL (?w body) = Some ?url \<and> ?url \<noteq> []" for body
    by (simp add: static_world_def str_def)
  have post: "axios_post (?w body) t ?url ?p = Inr (Obj [(str ''comment'', Str body)])" for body t
    by (simp add: static_world_def)
  have field: "get_prop (Obj [(str ''comment'', Str body)]) (str ''comment'') = Inr (Str body)"
    for body
    by simp
  have blank: "\<forall>c \<in> set (str ''  ''). is_js_whitespace c"
    by (simp add: str_def is_js_whitespace_def)
  have thanks: "\<exists>c \<in> set (str '' Thanks! ''). \<not> is_js_whitespace c"
    by (simp add: str_def is_js_whitespace_def)
  from callBackend_contract [of "?w (str ''  '')" ?p "[]" ?url] url post field blank
  show "snd (callBackend (?w (str ''  '')) ?p []) = Inr None"
    by blast
  from callBackend_contract [of "?w (str '' Thanks! '')" ?p "[]" ?url] url post field thanks
  show "snd (callBackend (?w (str '' Thanks! '')) ?p []) = Inr (Some (str '' Thanks! ''))"
    by blast
  let ?tr1 = "[ListFiles (str ''octo'') (str ''repo'') 7 100 1]"
  have notbot: "\<not> isFromBot ?ctx"
    by (simp add: isFromBot_def comment_event_def alice_def str_def endsWith_def)
  have cm: "payload_comment ?ctx = Some ?cm"
    by (simp add: comment_event_def)
  have body: "js_trim (or_empty (comment_body ?cm)) \<noteq> []"
    by (simp add: comment_event_def or_empty_def js_trim_def str_def is_js_whitespace_def)
  have files: "getPrFiles_of (?w []) ?ctx [] = Some (?tr1, Inr [])"
    by (simp add: getPrFiles_def getPrFiles_loop.simps static_world_def comment_event_def
        example_pull_request_def example_repository_def)
  obtain tr2 where backend: "callBackend (?w []) ?p ?tr1 = (tr2, Inr None)"
    using callBackend_blank [of "?w []" ?url ?tr1 ?p "Obj [(str ''comment'', Str [])]" "[]"]
      url post field by simp
  from callBackend_contract [of "?w []" ?p "[]" ?url ?ctx] notbot cm body files backend
  obtain es where "review_comment_created (?w []) ?ctx [] = Some ([] @ es, Inr ())"
    "filter is_write es = []"
    by blast
  then show "\<exists>es. review_comment_created (?w []) ?ctx [] = Some (es, Inr ()) \<and>
         filter is_write es = []"
    by simp
qed

text \<open>
  C5. When the sender's type is \<^verbatim>\<open>"Bot"\<close> or the sender's login ends with
  \<^verbatim>\<open>"[bot]"\<close>, each handler writes one log line and returns: no request is made, to
  the backend or to GitHub. When the review body (the inline comment body) is missing,
  empty or made of whitespace only, the handler does the same, before any request.
\<close>

theorem handlers_skip_bots_and_blank_bodies:
  "((\<exists>s. payload_sender ctx = Some s \<and>
        (sender_type s = Some (str ''Bot'') \<or>
         (\<exists>login prefix. sender_login s = Some login \<and> login = prefix @ str ''[bot]''))) \<longrightarrow>
      review_submitted w ctx tr =
        Some (tr @ [Log LogCall [] ''Skipping pull_request_review from bot sender.''], Inr ()) \<and>
      review_comment_created w ctx tr =
        Some (tr @ [Log LogCall [] ''Skipping pull_request_review_comment from bot sender.''],
              Inr ())) \<and>
   (\<forall>rv. payload_review ctx = Some rv \<and>
      (\<forall>c \<in> set (or_empty (review_body rv)). is_js_whitespace c) \<longrightarrow>
      (\<exists>msg. review_submitted w ctx tr = Some (tr @ [Log LogCall [] msg], Inr ()))) \<and>
   (\<forall>cm. payload_comment ctx = Some cm \<and>
      (\<forall>c \<in> set (or_empty (comment_body cm)). is_js_whitespace c) \<longrightarrow>
      (\<exists>msg. review_comment_created w ctx tr = Some (tr @ [Log LogCall [] msg], Inr ())))"
proof (intro conjI impI allI)
  assume "\<exists>s. payload_sender ctx = Some s \<and>
        (sender_type s = Some (str ''Bot'') \<or>
         (\<exists>login prefix. sender_login s = Some login \<and> login = prefix @ str ''[bot]''))"
  then have bot: "isFromBot ctx" by (simp only: isFromBot_iff)
  show "review_submitted w ctx tr =
        Some (tr @ [Log LogCall [] ''Skipping pull_request_review from bot sender.''], Inr ())"
    by (rule review_submitted_returned [OF review_submitted_try_bot [OF bot]])
  show "review_comment_created w ctx tr =
        Some (tr @ [Log LogCall [] ''Skipping pull_request_review_comment from bot sender.''],
              Inr ())"
    by (rule review_comment_created_returned [OF review_comment_created_try_bot [OF bot]])
next
  fix rv
  assume "payload_review ctx = Some rv \<and>
      (\<forall>c \<in> set (or_empty (review_body rv)). is_js_whitespace c)"
  then have rv: "payload_review ctx = Some rv" and blank: "js_trim (or_empty (review_body rv)) = []"
    by (simp_all add: js_trim_empty_iff)
  show "\<exists>msg. review_submitted w ctx tr = Some (tr @ [Log LogCall [] msg], Inr ())"
  proof (cases "isFromBot ctx")
    case True
    from review_submitted_returned [OF review_submitted_try_bot [OF True]] show ?thesis
      by blast
  next
    case False
    from review_submitted_returned [OF review_submitted_try_blank [OF False rv blank]]
    show ?thesis by blast
  qed
next
  fix cm
  assume "payload_comment ctx = Some cm \<and>
      (\<forall>c \<in> set (or_empty (comment_body cm)). is_js_whitespace c)"
  then have cm: "payload_comment ctx = Some cm"
    and blank: "js_trim (or_empty (comment_body cm)) = []"
    by (simp_all add: js_trim_empty_iff)
  show "\<exists>msg. review_comment_created w ctx tr = Some (tr @ [Log LogCall [] msg], Inr ())"
  proof (cases "isFromBot ctx")
    case True
    from review_comment_created_returned [OF review_comment_created_try_bot [OF True]]
    show ?thesis by blast
  next
    case False
    from review_comment_created_returned
           [OF review_comment_created_try_blank [OF False cm blank]]
    show ?thesis by blast
  qed
qed

theorem handlers_skip_bots_and_blank_bodies_witness:
  "review_submitted
     (static_world (Some (str ''http://backend'')) (\<lambda>path ref. text_file ''eA=='')
        (\<lambda>per_page page. Inr []) (Inr Null) (Inr ()))
     (review_event dependabot (Some (str ''Looks good''))) [] =
     Some ([Log LogCall [] ''Skipping pull_request_review from bot sender.''], Inr ()) \<and>
   (\<exists>msg. review_comment_created
     (static_world (Some (str ''http://backend'')) (\<lambda>path ref. text_file ''eA=='')
        (\<lambda>per_page page. Inr []) (Inr Null) (Inr ()))
     (comment_event alice (Some (str '' ''))) [] = Some ([Log LogCall [] msg], Inr ()))"
proof
  let ?w = "static_world (Some (str ''http://backend'')) (\<lambda>path ref. text_file ''eA=='')
        (\<lambda>per_page page. Inr []) (Inr Null) (Inr ())"
  have "\<exists>s. payload_sender (review_event dependabot (Some (str ''Looks good''))) = Some s \<and>
        (sender_type s = Some (str ''Bot'') \<or>
         (\<exists>login prefix. sender_login s = Some login \<and> login = prefix @ str ''[bot]''))"
    by (simp add: review_event_def dependabot_def)
  with handlers_skip_bots_and_blank_bodies
         [of "review_event dependabot (Some (str ''Looks good''))" ?w "[]"]
  show "review_submitted ?w (review_event dependabot (Some (str ''Looks good''))) [] =
     Some ([Log LogCall [] ''Skipping pull_request_review from bot sender.''], Inr ())"
    by simp
next
  let ?w = "static_world (Some (str ''http://backend'')) (\<lambda>path ref. text_file ''eA=='')
        (\<lambda>per_page page. Inr []) (Inr Null) (Inr ())"
  let ?cm = "\<lparr>comment_body = Some (str '' ''), comment_path = Some (str ''src/a.js''),
              comment_diff_hunk = None, comment_position = Some 5, comment_id = 42,
              comment_user = Some \<lparr>user_login = Some (str ''alice'')\<rparr>\<rparr>"
  have "payload_comment (comment_event alice (Some (str '' ''))) = Some ?cm \<and>
      (\<forall>c \<in> set (or_empty (comment_body ?cm)). is_js_whitespace c)"
    by (simp add: comment_event_def or_empty_def str_def is_js_whitespace_def)
  with handlers_skip_bots_and_blank_bodies
         [of "comment_event alice (Some (str '' ''))" ?w "[]"]
  show "\<exists>msg. review_comment_created ?w (comment_event alice (Some (str '' ''))) [] =
          Some ([Log LogCall [] msg], Inr ())"
    by simp
qed

end
